theory Spec2Isabelle
  imports Complex_Main "HOL-Library.Multiset"
begin

section \<open>Quantiphyse data grids and volume data (quantiphyse/data/qpdata.py)\<close>

text \<open>
  The module is Python 2 code on top of numpy. Arrays and co-ordinates are taken to be of
  floating type, as \<open>np.identity\<close> and the image loaders produce them, and their entries are
  modelled as real numbers, so every numpy computation is exact; the module's tolerance
  \<open>EQ_TOL\<close> is kept as it is written. Exceptions are values of \<open>error\<close>, and a function that can raise returns
  \<open>error + 'a\<close> with \<open>Inl\<close> for the exception.
\<close>

datatype error =
    RuntimeError | ValueError | LinAlgError | TypeError | IndexError
  | QpException | ZeroDivisionError | FloatingPointError

type_synonym matrix = "real list list"

subsection \<open>numpy helpers\<close>

text \<open>A matrix is the list of its rows; \<open>mat[:, j]\<close> is \<open>col mat j\<close>.\<close>

definition col :: "matrix \<Rightarrow> nat \<Rightarrow> real list" where
  "col m j = map (\<lambda>r. r ! j) m"

definition is_square :: "matrix \<Rightarrow> bool" where
  "is_square m = list_all (\<lambda>r. length r = length m) m"

definition identity :: "nat \<Rightarrow> matrix" where
  "identity n = map (\<lambda>i. map (\<lambda>j. if i = j then 1 else 0) [0..<n]) [0..<n]"

text \<open>\<open>np.dot\<close> of a matrix and a vector raises ValueError when the shapes are not aligned.\<close>

definition np_dot :: "matrix \<Rightarrow> real list \<Rightarrow> error + real list" where
  "np_dot m v =
     (if list_all (\<lambda>r. length r = length v) m
      then Inr (map (\<lambda>r. sum_list (map2 (*) r v)) m)
      else Inl ValueError)"

text \<open>\<open>np.dot\<close> of two matrices.\<close>

definition matmul :: "matrix \<Rightarrow> matrix \<Rightarrow> error + matrix" where
  "matmul a b =
     (if list_all (\<lambda>r. length r = length b) a
      then Inr (map (\<lambda>r. map (\<lambda>j. sum_list (map2 (*) r (col b j))) [0..<length (hd b)]) a)
      else Inl ValueError)"

text \<open>
  \<open>np.linalg.inv\<close>, as the exact inverse: the transposed cofactor matrix over the
  determinant, LinAlgError for a matrix that is not square or is singular. numpy computes
  in double precision: its result is this one up to rounding only, it can be far from it for
  an ill-conditioned matrix, and a singular matrix raises only when the elimination meets
  a pivot that is exactly zero. Where a statement depends on that difference
  (\<open>resample_with\<close> below), the library functions are parameters instead.
\<close>

definition del_at :: "nat \<Rightarrow> 'a list \<Rightarrow> 'a list" where
  "del_at i xs = take i xs @ drop (Suc i) xs"

definition minor :: "matrix \<Rightarrow> nat \<Rightarrow> nat \<Rightarrow> matrix" where
  "minor m i j = map (del_at j) (del_at i m)"

primrec det_n :: "nat \<Rightarrow> matrix \<Rightarrow> real" where
  "det_n 0 m = 1"
| "det_n (Suc n) m =
     sum_list (map (\<lambda>j. (- 1) ^ j * (m ! 0 ! j) * det_n n (minor m 0 j)) [0..<Suc n])"

definition det :: "matrix \<Rightarrow> real" where
  "det m = det_n (length m) m"

definition cofactor :: "matrix \<Rightarrow> nat \<Rightarrow> nat \<Rightarrow> real" where
  "cofactor m i j = (- 1) ^ (i + j) * det (minor m i j)"

definition linalg_inv :: "matrix \<Rightarrow> error + matrix" where
  "linalg_inv m =
     (if \<not> is_square m then Inl LinAlgError
      else if det m = 0 then Inl LinAlgError
      else Inr (map (\<lambda>i. map (\<lambda>j. cofactor m j i / det m) [0..<length m]) [0..<length m]))"

text \<open>\<open>np.linalg.norm\<close> of a vector.\<close>

definition linalg_norm :: "real list \<Rightarrow> real" where
  "linalg_norm v = sqrt (sum_list (map (\<lambda>x. x * x) v))"

subsection \<open>DataGrid\<close>

record datagrid =
  shape :: "int list"
  affine :: matrix
  origin :: "real list"
  transform :: matrix
  inv_transform :: matrix
  spacing :: "real list"
  nvoxels :: int

definition is_4x4 :: "matrix \<Rightarrow> bool" where
  "is_4x4 m = (length m = 4 \<and> list_all (\<lambda>r. length r = 4) m)"

text \<open>\<open>DataGrid.__init__\<close>: \<open>affine[:3, 3]\<close> is the origin, \<open>affine[:3, :3]\<close> the transform.\<close>

definition DataGrid :: "int list \<Rightarrow> matrix \<Rightarrow> error + datagrid" where
  "DataGrid shp aff =
     (if length shp \<noteq> 3 then Inl RuntimeError
      else if \<not> is_4x4 aff then Inl RuntimeError
      else
        (let tr = map (take 3) (take 3 aff) in
         case linalg_inv tr of
           Inl e \<Rightarrow> Inl e
         | Inr itr \<Rightarrow>
             Inr \<lparr> shape = shp, affine = aff, origin = take 3 (col aff 3),
                   transform = tr, inv_transform = itr,
                   spacing = map (\<lambda>i. linalg_norm (col aff i)) [0..<3],
                   nvoxels = prod_list (take 3 shp) \<rparr>))"

definition grid_to_world :: "datagrid \<Rightarrow> real list \<Rightarrow> bool \<Rightarrow> error + real list" where
  "grid_to_world self coords direction =
     (case np_dot (transform self) (take 3 coords) of
        Inl e \<Rightarrow> Inl e
      | Inr w \<Rightarrow>
          (let world_coords = (if \<not> direction then map2 (+) w (origin self) else w)
           in if length coords = 4 then Inr (world_coords @ [coords ! 3])
              else Inr world_coords))"

text \<open>
  In \<open>world_to_grid\<close> the origin is subtracted in place (\<open>vec -= origin\<close>), which numpy
  refuses with ValueError unless \<open>vec\<close> has the origin's length.
\<close>

definition world_to_grid :: "datagrid \<Rightarrow> real list \<Rightarrow> bool \<Rightarrow> error + real list" where
  "world_to_grid self coords direction =
     (let vec = take 3 coords in
      if \<not> direction \<and> length vec \<noteq> length (origin self) then Inl ValueError
      else
        (case np_dot (inv_transform self)
                (if \<not> direction then map2 (-) vec (origin self) else vec) of
           Inl e \<Rightarrow> Inl e
         | Inr grid_coords \<Rightarrow>
             if length coords = 4 then Inr (grid_coords @ [coords ! 3])
             else Inr grid_coords))"

text \<open>\<open>from_grid\<close> and \<open>to_grid\<close> default to None.\<close>

definition grid_to_grid ::
  "datagrid \<Rightarrow> real list \<Rightarrow> datagrid option \<Rightarrow> datagrid option \<Rightarrow> bool \<Rightarrow> error + real list"
where
  "grid_to_grid self coord from_grid to_grid direction =
     (case (from_grid, to_grid) of
        (Some f, None) \<Rightarrow>
          (case grid_to_world f coord direction of
             Inl e \<Rightarrow> Inl e | Inr world \<Rightarrow> world_to_grid self world direction)
      | (None, Some t) \<Rightarrow>
          (case grid_to_world self coord direction of
             Inl e \<Rightarrow> Inl e | Inr world \<Rightarrow> world_to_grid t world direction)
      | _ \<Rightarrow> Inl RuntimeError)"

text \<open>
  \<open>mat[:, j]\<close> raises IndexError when the matrix has no column \<open>j\<close>; \<open>np.argmax\<close> returns
  the first index of the largest entry and raises ValueError on an empty array.
\<close>

definition np_col :: "matrix \<Rightarrow> nat \<Rightarrow> error + real list" where
  "np_col m j = (if list_all (\<lambda>r. j < length r) m then Inr (col m j) else Inl IndexError)"

fun argmax_from :: "nat \<Rightarrow> real \<Rightarrow> nat \<Rightarrow> real list \<Rightarrow> nat" where
  "argmax_from best bv i [] = best"
| "argmax_from best bv i (x # xs) =
     (if bv < x then argmax_from i x (Suc i) xs else argmax_from best bv (Suc i) xs)"

definition argmax :: "real list \<Rightarrow> nat" where
  "argmax xs = (case xs of [] \<Rightarrow> 0 | x # rest \<Rightarrow> argmax_from 0 x 1 rest)"

definition np_argmax :: "real list \<Rightarrow> error + nat" where
  "np_argmax xs = (if xs = [] then Inl ValueError else Inr (argmax xs))"

text \<open>A list comprehension whose body can raise stops at the first exception.\<close>

fun map_err :: "('a \<Rightarrow> error + 'b) \<Rightarrow> 'a list \<Rightarrow> error + 'b list" where
  "map_err f [] = Inr []"
| "map_err f (x # xs) =
     (case f x of
        Inl e \<Rightarrow> Inl e
      | Inr y \<Rightarrow> (case map_err f xs of Inl e \<Rightarrow> Inl e | Inr ys \<Rightarrow> Inr (y # ys)))"

text \<open>A \<open>for\<close> loop over a list that updates a state and can raise.\<close>

fun fold_err :: "('a \<Rightarrow> 's \<Rightarrow> error + 's) \<Rightarrow> 'a list \<Rightarrow> 's \<Rightarrow> error + 's" where
  "fold_err f [] s = Inr s"
| "fold_err f (x # xs) s = (case f x s of Inl e \<Rightarrow> Inl e | Inr s' \<Rightarrow> fold_err f xs s')"

text \<open>\<open>list.index\<close>: the first position of a value, ValueError when it is absent.\<close>

fun list_index :: "nat list \<Rightarrow> nat \<Rightarrow> error + nat" where
  "list_index [] v = Inl ValueError"
| "list_index (x # xs) v =
     (if x = v then Inr 0
      else case list_index xs v of Inl e \<Rightarrow> Inl e | Inr i \<Rightarrow> Inr (Suc i))"

text \<open>\<open>new_mat[:, j] = v\<close>, for a vector with one entry for each row.\<close>

definition set_col :: "matrix \<Rightarrow> nat \<Rightarrow> real list \<Rightarrow> matrix" where
  "set_col m j v = map2 (\<lambda>r x. r[j := x]) m v"

subsection \<open>DataGrid.get_ras_axes\<close>

text \<open>The first line of \<open>get_ras_axes\<close>: the dominant world axis of each grid axis.\<close>

definition world_axes :: "datagrid \<Rightarrow> error + nat list" where
  "world_axes self =
     map_err (\<lambda>axis. case np_col (transform self) axis of
                        Inl e \<Rightarrow> Inl e
                      | Inr c \<Rightarrow> np_argmax (map abs c)) [0..<3]"

definition get_ras_axes :: "datagrid \<Rightarrow> error + nat list" where
  "get_ras_axes self =
     (case world_axes self of
        Inl e \<Rightarrow> Inl e
      | Inr wa \<Rightarrow>
          (case map_err (list_index wa) [0..<3] of
             Inl e \<Rightarrow> Inl e
           | Inr grid_axes \<Rightarrow> Inr (grid_axes @ [3])))"

subsection \<open>DataGrid.simplify_transforms and DataGrid.get_standard\<close>

text \<open>
  The first loop of \<open>simplify_transforms\<close>: for each of the three dimensions the row with the
  largest absolute entry in that column is appended to \<open>dim_order\<close>, and to \<open>dim_flip\<close> too
  when the entry is negative.
\<close>

definition scan_dim :: "matrix \<Rightarrow> nat \<Rightarrow> nat list \<times> nat list \<Rightarrow> error + nat list \<times> nat list" where
  "scan_dim mat dm st =
     (case np_col (map (map abs) mat) dm of
        Inl e \<Rightarrow> Inl e
      | Inr c \<Rightarrow>
          (case np_argmax c of
             Inl e \<Rightarrow> Inl e
           | Inr newd \<Rightarrow>
               Inr (fst st @ [newd],
                    if mat ! newd ! dm < 0 then snd st @ [newd] else snd st)))"

text \<open>
  The three loops of the consistent case: columns are moved (read from \<open>mat\<close>, written to
  \<open>new_mat\<close>), flipped columns change sign, and the origin \<open>new_mat[:3, 3]\<close> moves by
  \<open>new_shape[d] - 1\<close> steps of each flipped column.
\<close>

definition move_cols :: "matrix \<Rightarrow> nat list \<Rightarrow> matrix \<Rightarrow> matrix" where
  "move_cols mat dim_order new_mat =
     fold (\<lambda>(idx, dm) nm. set_col nm dm (col mat idx))
          (zip [0..<length dim_order] dim_order) new_mat"

definition flip_cols :: "nat list \<Rightarrow> matrix \<Rightarrow> matrix" where
  "flip_cols dim_flip new_mat =
     fold (\<lambda>dm nm. set_col nm dm (map uminus (col nm dm))) dim_flip new_mat"

definition adjust_step :: "int list \<Rightarrow> nat \<Rightarrow> matrix \<Rightarrow> matrix" where
  "adjust_step new_shape dm nm =
     map2 (\<lambda>i r. if i < 3 then r[3 := r ! 3 - r ! dm * real_of_int (new_shape ! dm - 1)]
                  else r)
          [0..<length nm] nm"

definition adjust_origin :: "int list \<Rightarrow> nat list \<Rightarrow> matrix \<Rightarrow> matrix" where
  "adjust_origin new_shape dim_flip new_mat = fold (adjust_step new_shape) dim_flip new_mat"

text \<open>
  \<open>sorted(dim_order) == range(3)\<close> compares two lists in Python 2. In the consistent case
  \<open>self.shape[d]\<close> and \<open>new_mat[:3, 3]\<close> raise IndexError on a shape of fewer than three
  entries and on a matrix of fewer than four columns.
\<close>

definition simplify_transforms ::
  "datagrid \<Rightarrow> matrix \<Rightarrow> error + nat list \<times> nat list \<times> matrix"
where
  "simplify_transforms self mat =
     (case fold_err (scan_dim mat) [0..<3] ([], []) of
        Inl e \<Rightarrow> Inl e
      | Inr (dim_order, dim_flip) \<Rightarrow>
          if sort dim_order = [0..<3] then
            (if length (shape self) < 3 then Inl IndexError
             else
               (let new_shape = map (\<lambda>d. shape self ! d) dim_order;
                    new_mat = move_cols mat dim_order mat;
                    new_mat = flip_cols dim_flip new_mat
                in if dim_flip \<noteq> [] \<and> \<not> list_all (\<lambda>r. 3 < length r) new_mat
                   then Inl IndexError
                   else Inr (dim_order, dim_flip, adjust_origin new_shape dim_flip new_mat)))
          else Inr ([0..<3], [], mat))"

definition get_standard :: "datagrid \<Rightarrow> error + datagrid" where
  "get_standard self =
     (case simplify_transforms self (affine self) of
        Inl e \<Rightarrow> Inl e
      | Inr (reorder, _, tmatrix) \<Rightarrow>
          if \<not> list_all (\<lambda>d. d < length (shape self)) reorder then Inl IndexError
          else DataGrid (map (\<lambda>d. shape self ! d) reorder) tmatrix)"

subsection \<open>numpy arrays\<close>

text \<open>
  An n-dimensional array is its shape and its entries in row-major order, as numpy stores a
  contiguous array. \<open>norm_index\<close> is numpy's treatment of one integer index on an axis of
  length \<open>n\<close>: a negative index counts from the end, and an index outside \<open>[-n, n)\<close> raises
  IndexError.
\<close>

record ndarray =
  arr_shape :: "nat list"
  arr_data :: "real list"

datatype item = Scalar real | SubArray ndarray

definition np_zeros :: "nat list \<Rightarrow> ndarray" where
  "np_zeros shp = \<lparr> arr_shape = shp, arr_data = replicate (prod_list shp) 0 \<rparr>"

definition np_ones :: "nat list \<Rightarrow> ndarray" where
  "np_ones shp = \<lparr> arr_shape = shp, arr_data = replicate (prod_list shp) 1 \<rparr>"

definition norm_index :: "nat \<Rightarrow> int \<Rightarrow> error + nat" where
  "norm_index n i =
     (if 0 \<le> i \<and> i < int n then Inr (nat i)
      else if - int n \<le> i \<and> i < 0 then Inr (nat (i + int n))
      else Inl IndexError)"

text \<open>\<open>a[i, j, ...]\<close> with integer indices: more indices than axes raise IndexError.\<close>

fun getitem_aux :: "nat list \<Rightarrow> real list \<Rightarrow> int list \<Rightarrow> error + nat list \<times> real list" where
  "getitem_aux shp dat [] = Inr (shp, dat)"
| "getitem_aux [] dat (i # idx) = Inl IndexError"
| "getitem_aux (n # shp) dat (i # idx) =
     (case norm_index n i of
        Inl e \<Rightarrow> Inl e
      | Inr k \<Rightarrow> getitem_aux shp (take (prod_list shp) (drop (k * prod_list shp) dat)) idx)"

definition np_getitem :: "ndarray \<Rightarrow> int list \<Rightarrow> error + item" where
  "np_getitem a idx =
     (case getitem_aux (arr_shape a) (arr_data a) idx of
        Inl e \<Rightarrow> Inl e
      | Inr (shp, dat) \<Rightarrow>
          Inr (if shp = [] then Scalar (hd dat)
               else SubArray \<lparr> arr_shape = shp, arr_data = dat \<rparr>))"

text \<open>\<open>a[:, :, :, k]\<close>.\<close>

definition index_axis3 :: "ndarray \<Rightarrow> int \<Rightarrow> error + ndarray" where
  "index_axis3 a k =
     (if length (arr_shape a) < 4 then Inl IndexError
      else
        (case norm_index (arr_shape a ! 3) k of
           Inl e \<Rightarrow> Inl e
         | Inr j \<Rightarrow>
             (let inner = prod_list (drop 4 (arr_shape a));
                  outer = prod_list (take 3 (arr_shape a));
                  n4 = arr_shape a ! 3
              in Inr \<lparr> arr_shape = take 3 (arr_shape a) @ drop 4 (arr_shape a),
                       arr_data = concat (map (\<lambda>i. take inner (drop ((i * n4 + j) * inner)
                                                                  (arr_data a)))
                                              [0..<outer]) \<rparr>)))"

text \<open>
  All indices of a shape in row-major order and the position of an index in the entries,
  for \<open>np.transpose\<close> and \<open>np.flip\<close>; both raise ValueError on axes the array does not have.
\<close>

fun all_indices :: "nat list \<Rightarrow> nat list list" where
  "all_indices [] = [[]]"
| "all_indices (n # ns) = concat (map (\<lambda>i. map ((#) i) (all_indices ns)) [0..<n])"

definition ravel :: "nat list \<Rightarrow> nat list \<Rightarrow> nat" where
  "ravel shp idx = foldl (\<lambda>acc (n, i). acc * n + i) 0 (zip shp idx)"

definition np_transpose :: "ndarray \<Rightarrow> nat list \<Rightarrow> error + ndarray" where
  "np_transpose a axes =
     (if sort axes \<noteq> [0..<length (arr_shape a)] then Inl ValueError
      else
        (let new_shape = map (\<lambda>ax. arr_shape a ! ax) axes
         in Inr \<lparr> arr_shape = new_shape,
                  arr_data =
                    map (\<lambda>idx. arr_data a !
                           ravel (arr_shape a)
                             (map (\<lambda>ax. idx ! length (takeWhile (\<lambda>x. x \<noteq> ax) axes))
                                  [0..<length axes]))
                        (all_indices new_shape) \<rparr>))"

definition np_flip :: "ndarray \<Rightarrow> nat \<Rightarrow> error + ndarray" where
  "np_flip a ax =
     (if length (arr_shape a) \<le> ax then Inl ValueError
      else Inr \<lparr> arr_shape = arr_shape a,
                 arr_data =
                   map (\<lambda>idx. arr_data a !
                          ravel (arr_shape a) (idx[ax := arr_shape a ! ax - 1 - idx ! ax]))
                       (all_indices (arr_shape a)) \<rparr>)"

subsection \<open>The tolerance tests\<close>

definition EQ_TOL :: real where
  "EQ_TOL = 1 / 1000"

text \<open>
  A numpy matrix is rectangular: its number of columns is the length of its first row.
  \<open>mat - np.identity(mat.shape[0])\<close> and \<open>mat - np.diag(np.diag(mat))\<close> follow numpy's
  broadcasting: a square matrix is compared entry by entry; a matrix of one row or of one
  column is broadcast against the identity (every entry of a single row against 1, the
  single column against every column of the identity), and against its own first entry
  in \<open>is_diagonal\<close>, where \<open>np.diag(np.diag(mat))\<close> is 1x1; any other shape raises ValueError.
\<close>

definition ncols :: "matrix \<Rightarrow> nat" where
  "ncols mat = (case mat of [] \<Rightarrow> 0 | r # rs \<Rightarrow> length r)"

definition is_identity :: "matrix \<Rightarrow> error + bool" where
  "is_identity mat =
     (if ncols mat = length mat then
        Inr (list_all (\<lambda>i. list_all (\<lambda>j. \<bar>mat ! i ! j - (if i = j then 1 else 0)\<bar> < EQ_TOL)
                                   [0..<length mat]) [0..<length mat])
      else if length mat = 1 then Inr (list_all (\<lambda>x. \<bar>x - 1\<bar> < EQ_TOL) (hd mat))
      else if ncols mat = 1 then
        Inr (list_all (\<lambda>i. list_all (\<lambda>j. \<bar>mat ! i ! 0 - (if i = j then 1 else 0)\<bar> < EQ_TOL)
                                   [0..<length mat]) [0..<length mat])
      else Inl ValueError)"

definition is_diagonal :: "matrix \<Rightarrow> error + bool" where
  "is_diagonal mat =
     (if ncols mat = length mat then
        Inr (list_all (\<lambda>i. list_all (\<lambda>j. \<bar>mat ! i ! j - (if i = j then mat ! i ! j else 0)\<bar>
                                          < EQ_TOL)
                                   [0..<length mat]) [0..<length mat])
      else if length mat = 1 \<or> ncols mat = 1 then
        Inr (list_all (list_all (\<lambda>x. \<bar>x - mat ! 0 ! 0\<bar> < EQ_TOL)) mat)
      else Inl ValueError)"

subsection \<open>QpData\<close>

text \<open>
  A data object refers to its grid; the type of the \<open>grid\<close> field is a parameter, so that the
  same record serves with the grid itself (for the operations that only read it) and with
  the address of the grid object in a store (for \<open>set_2dt\<close>, which assigns to it). \<open>rawdata\<close>
  is the array that \<open>raw()\<close> returns, \<open>regions_cache\<close> the attribute \<open>_regions\<close>. The file
  name, the display precision, the metadata and the cached range play no part here.
\<close>

record 'g qpdata =
  name :: string
  grid :: 'g
  nvols :: int
  ndim :: nat
  raw_2dt :: bool
  regions_cache :: "int list option"
  roi :: bool
  rawdata :: ndarray

definition set_roi :: "'g qpdata \<Rightarrow> bool \<Rightarrow> error + 'g qpdata" where
  "set_roi self r =
     (if r \<and> nvols self \<noteq> 1 then Inl TypeError else Inr (self\<lparr>roi := r\<rparr>))"

text \<open>\<open>QpData.__init__\<close>; the ROI flag has no value before \<open>set_roi\<close> assigns it.\<close>

definition QpData :: "string \<Rightarrow> 'g \<Rightarrow> int \<Rightarrow> bool \<Rightarrow> ndarray \<Rightarrow> error + 'g qpdata" where
  "QpData nm g nv r arr =
     set_roi \<lparr> name = nm, grid = g, nvols = nv, ndim = (if nv = 1 then 3 else 4),
               raw_2dt = False, regions_cache = None, roi = False, rawdata = arr \<rparr> r"

text \<open>
  Modelled from the spec: \<open>NumpyData\<close>, the array-backed data class that \<open>resample\<close>
  returns, is not among the sources. It is the data on the given grid with the given name and
  ROI flag, with one volume for a 3D array and the length of the fourth axis for a 4D one.
\<close>

definition NumpyData :: "ndarray \<Rightarrow> 'g \<Rightarrow> string \<Rightarrow> bool \<Rightarrow> error + 'g qpdata" where
  "NumpyData dat g nm r =
     QpData nm g (if length (arr_shape dat) = 4 then int (arr_shape dat ! 3) else 1) r dat"

definition volume :: "'g qpdata \<Rightarrow> int \<Rightarrow> error + ndarray" where
  "volume self vol =
     (if ndim self = 4 then index_axis3 (rawdata self) (min vol (nvols self - 1))
      else Inr (rawdata self))"

text \<open>
  \<open>value(pos, grid)\<close> without \<open>as_str\<close>. The position is the list of its coordinates and,
  when it has a fourth entry, the integer volume index \<open>pos[3]\<close>; reading a volume index
  that is not there raises IndexError. An IndexError of the array lookup is caught.
\<close>

definition round_half_up :: "real \<Rightarrow> int" where
  "round_half_up v = \<lfloor>v + 1 / 2\<rfloor>"

definition value_at ::
  "datagrid qpdata \<Rightarrow> real list \<Rightarrow> int option \<Rightarrow> datagrid option \<Rightarrow> error + item"
where
  "value_at self pos pos3 grid_arg =
     (case (case grid_arg of None \<Rightarrow> DataGrid [1, 1, 1] (identity 4) | Some g \<Rightarrow> Inr g) of
        Inl e \<Rightarrow> Inl e
      | Inr g \<Rightarrow>
          (case grid_to_grid (grid self) (take 3 pos) (Some g) None False of
             Inl e \<Rightarrow> Inl e
           | Inr p \<Rightarrow>
               (let data_pos = map round_half_up p in
                if data_pos = [] then Inl ValueError
                else if Min (set data_pos) < 0 then Inr (Scalar 0)
                else
                  (case pos3 of
                     None \<Rightarrow> Inl IndexError
                   | Some vol \<Rightarrow>
                       (case volume self vol of
                          Inl e \<Rightarrow> Inl e
                        | Inr rawd \<Rightarrow>
                            (case np_getitem rawd data_pos of
                               Inl e \<Rightarrow> if e = IndexError then Inr (Scalar 0) else Inl e
                             | Inr v \<Rightarrow> Inr v))))))"

text \<open>
  \<open>regions()\<close>: \<open>astype(np.int)\<close> converts to the platform integer, of 64 bits here. The
  conversion truncates towards zero; for a value whose integer part does not fit, C leaves
  it undefined and x86-64 gives the smallest integer, which is what numpy returns there.
  \<open>np.unique\<close> sorts and removes duplicates, and the result is kept in \<open>_regions\<close>.
\<close>

definition trunc_toward_zero :: "real \<Rightarrow> int" where
  "trunc_toward_zero v = (if 0 \<le> v then \<lfloor>v\<rfloor> else \<lceil>v\<rceil>)"

definition astype_int :: "real \<Rightarrow> int" where
  "astype_int v =
     (let t = trunc_toward_zero v in
      if - (2 ^ 63) \<le> t \<and> t < 2 ^ 63 then t else - (2 ^ 63))"

definition np_unique :: "int list \<Rightarrow> int list" where
  "np_unique xs = sort (remdups xs)"

text \<open>The two lines that compute the regions of an array.\<close>

definition find_regions :: "ndarray \<Rightarrow> int list" where
  "find_regions a = filter (\<lambda>r. 0 < r) (np_unique (map astype_int (arr_data a)))"

definition regions :: "'g qpdata \<Rightarrow> error + int list \<times> 'g qpdata" where
  "regions self =
     (if \<not> roi self then Inl TypeError
      else
        (case regions_cache self of
           None \<Rightarrow>
             (let r = find_regions (rawdata self)
              in Inr (r, self\<lparr>regions_cache := Some r\<rparr>))
         | Some r \<Rightarrow> Inr (r, self)))"

text \<open>
  \<open>set_2dt\<close> assigns to \<open>self.grid.shape[2]\<close>, an entry of the grid object itself, so it is
  modelled on a store of grid objects, the data holding the address of its grid (an address
  with no grid behind it does not occur in Python; the model gives RuntimeError there).
\<close>

definition set_2dt ::
  "(nat \<Rightarrow> datagrid option) \<Rightarrow> nat qpdata \<Rightarrow> error + (nat \<Rightarrow> datagrid option) \<times> nat qpdata"
where
  "set_2dt store self =
     (case store (grid self) of
        None \<Rightarrow> Inl RuntimeError
      | Some g \<Rightarrow>
          if nvols self \<noteq> 1 then Inl RuntimeError
          else if length (shape g) < 3 then Inl IndexError
          else if shape g ! 2 = 1 then Inl RuntimeError
          else Inr (store (grid self := Some (g\<lparr>shape := (shape g)[2 := 1]\<rparr>)),
                    self\<lparr>raw_2dt := True, nvols := shape g ! 2, ndim := 4\<rparr>))"

subsection \<open>QpData.resample\<close>

text \<open>
  \<open>scipy.ndimage.affine_transform\<close> is a library function and a parameter of the model; it
  receives the array, the matrix (or its diagonal, in sequence mode), the offset, the output
  shape and the interpolation order.
\<close>

datatype affine_arg = Matrix matrix | Sequence "real list"

type_synonym affine_transform_fn =
  "ndarray \<Rightarrow> affine_arg \<Rightarrow> real list \<Rightarrow> int list \<Rightarrow> nat \<Rightarrow> error + ndarray"

text \<open>
  The block under \<open>if self.roi:\<close>. \<open>data.min()\<close> raises ValueError on an empty array,
  \<open>np.mod(data, 1)\<close> is the fractional part, and the second test uses \<open>.any()\<close>. Outside
  the 32-bit range the conversion of \<open>astype(np.int32)\<close> is not defined by C; the model gives
  the smallest 32-bit integer there, as x86 does.
\<close>

definition astype_int32 :: "real \<Rightarrow> real" where
  "astype_int32 v =
     (let t = trunc_toward_zero v in
      if - (2 ^ 31) \<le> t \<and> t < 2 ^ 31 then real_of_int t else - (2 ^ 31))"

definition roi_check :: "ndarray \<Rightarrow> error + ndarray" where
  "roi_check dat =
     (if arr_data dat = [] then Inl ValueError
      else if Min (set (arr_data dat)) < 0 \<or> 2 ^ 32 < Max (set (arr_data dat))
        then Inl QpException
      else if \<not> list_ex (\<lambda>v. frac v = 0) (arr_data dat) then Inl QpException
      else Inr (dat\<lparr>arr_data := map astype_int32 (arr_data dat)\<rparr>))"

text \<open>
  \<open>resample\<close> calls \<open>np.linalg.inv\<close> and \<open>np.dot\<close> on 4x4 matrices, in double precision,
  and then compares the product with the identity. \<open>resample_with\<close> takes the two library
  functions as parameters, so that what is proved of it does not depend on how they round;
  \<open>resample\<close> is its instance with the exact inverse and product.
\<close>

type_synonym inv_fn = "matrix \<Rightarrow> error + matrix"

type_synonym dot_fn = "matrix \<Rightarrow> matrix \<Rightarrow> error + matrix"

text \<open>
  The block under \<open>if not is_identity(tmatrix):\<close>. \<open>np.append\<close> raises ValueError when the
  appended row or column does not fit.
\<close>

definition resample_affine ::
  "inv_fn \<Rightarrow> affine_transform_fn \<Rightarrow> datagrid qpdata \<Rightarrow> datagrid \<Rightarrow> nat \<Rightarrow> ndarray \<Rightarrow> matrix
     \<Rightarrow> error + ndarray"
where
  "resample_affine np_inv affine_transform self g order dat tmatrix =
     (case np_inv tmatrix of
        Inl e \<Rightarrow> Inl e
      | Inr tm \<Rightarrow>
          (case np_col tm 3 of
             Inl e \<Rightarrow> Inl e
           | Inr c3 \<Rightarrow>
               (let aff = map (take 3) (take 3 tm);
                    offset = take 3 c3;
                    output_shape = shape g;
                    four = (length (arr_shape dat) = 4)
                in if four \<and> \<not> (list_all (\<lambda>r. length r = 3) aff \<and> length aff = 3)
                   then Inl ValueError
                   else
                     (let aff = (if four then map2 (\<lambda>r x. r @ [x]) (aff @ [[0, 0, 0]]) [0, 0, 0, 1]
                                 else aff);
                          offset = (if four then offset @ [0] else offset);
                          output_shape = (if four then output_shape @ [int (arr_shape dat ! 3)]
                                          else output_shape)
                      in case is_diagonal aff of
                           Inl e \<Rightarrow> Inl e
                         | Inr dg \<Rightarrow>
                             (case affine_transform dat
                                     (if dg then Sequence (map (\<lambda>i. aff ! i ! i) [0..<length aff])
                                      else Matrix aff)
                                     offset output_shape order of
                                Inl e \<Rightarrow> Inl e
                              | Inr dat' \<Rightarrow> if roi self then roi_check dat' else Inr dat')))))"

text \<open>\<open>reorder != range(3)\<close> compares two lists in Python 2.\<close>

definition resample_with ::
  "inv_fn \<Rightarrow> dot_fn \<Rightarrow> affine_transform_fn \<Rightarrow> datagrid qpdata \<Rightarrow> datagrid \<Rightarrow> nat
     \<Rightarrow> error + datagrid qpdata"
where
  "resample_with np_inv np_dot2 affine_transform self g order =
     (case np_inv (affine g) of
        Inl e \<Rightarrow> Inl e
      | Inr gi \<Rightarrow>
     (case np_dot2 gi (affine (grid self)) of
        Inl e \<Rightarrow> Inl e
      | Inr tmatrix \<Rightarrow>
     (case simplify_transforms (grid self) tmatrix of
        Inl e \<Rightarrow> Inl e
      | Inr (reorder, flip, tmatrix) \<Rightarrow>
     (case (if reorder \<noteq> [0..<3]
            then np_transpose (rawdata self)
                   (if length (arr_shape (rawdata self)) = 4 then reorder @ [3] else reorder)
            else Inr (rawdata self)) of
        Inl e \<Rightarrow> Inl e
      | Inr dat \<Rightarrow>
     (case fold_err (\<lambda>dm d. np_flip d dm) flip dat of
        Inl e \<Rightarrow> Inl e
      | Inr dat \<Rightarrow>
     (case is_identity tmatrix of
        Inl e \<Rightarrow> Inl e
      | Inr ident \<Rightarrow>
     (case (if \<not> ident then resample_affine np_inv affine_transform self g order dat tmatrix
            else Inr dat) of
        Inl e \<Rightarrow> Inl e
      | Inr dat \<Rightarrow> NumpyData dat g (name self @ ''_resampled'') (roi self))))))))"

definition resample ::
  "affine_transform_fn \<Rightarrow> datagrid qpdata \<Rightarrow> datagrid \<Rightarrow> nat \<Rightarrow> error + datagrid qpdata"
where
  "resample = resample_with linalg_inv matmul"

subsection \<open>is_ortho_vector and QpData.slice_data\<close>

text \<open>Sequencing of steps that can raise.\<close>

definition and_then :: "error + 'a \<Rightarrow> ('a \<Rightarrow> error + 'b) \<Rightarrow> error + 'b" where
  "and_then m f = (case m of Inl e \<Rightarrow> Inl e | Inr x \<Rightarrow> f x)"

text \<open>
  \<open>is_ortho_vector(vec, shape)\<close>: the first axis whose entry, divided by the norm, has absolute
  value within \<open>EQ_TOL / shape\<close> of 1, with the sign of that entry, or \<open>(None, None)\<close>.
  \<open>EQ_TOL / shape\<close> divides a Python float by an integer and raises ZeroDivisionError for 0.
\<close>

definition is_ortho_vector :: "real list \<Rightarrow> nat \<Rightarrow> error + (nat \<times> real) option" where
  "is_ortho_vector vec shp =
     (if shp = 0 then Inl ZeroDivisionError
      else
        (let tol = EQ_TOL / real shp; md = linalg_norm vec in
         case find (\<lambda>(axis, val). \<bar>\<bar>val / md\<bar> - 1\<bar> < tol) (zip [0..<length vec] vec) of
           None \<Rightarrow> Inr None
         | Some (axis, val) \<Rightarrow> Inr (Some (axis, if val < 0 then - 1 else 1))))"

text \<open>
  Basic indexing \<open>a[items]\<close> where an item is \<open>None\<close> (a new axis of length 1), a slice or an
  integer. \<open>slice_indices\<close> lists the positions that a slice selects on an axis of length
  \<open>n\<close>, by Python's rules for a non-zero step.
\<close>

datatype index_item = NewAxis | Slice int "int option" int | Index int

definition slice_indices :: "nat \<Rightarrow> int \<Rightarrow> int option \<Rightarrow> int \<Rightarrow> int list" where
  "slice_indices n start stop step =
     (let len = int n;
          clamp = (\<lambda>i lo hi. if i < 0 then max (i + len) lo else min i hi)
      in if 0 < step then
           (let s = clamp start 0 len;
                e = (case stop of None \<Rightarrow> len | Some t \<Rightarrow> clamp t 0 len)
            in map (\<lambda>k. s + int k * step) [0..<nat ((e - s + step - 1) div step)])
         else
           (let s = clamp start (- 1) (len - 1);
                e = (case stop of None \<Rightarrow> - 1 | Some t \<Rightarrow> clamp t (- 1) (len - 1))
            in map (\<lambda>k. s + int k * step) [0..<nat ((s - e - step - 1) div (- step))]))"

fun np_index :: "nat list \<Rightarrow> real list \<Rightarrow> index_item list \<Rightarrow> error + nat list \<times> real list" where
  "np_index shp dat [] = Inr (shp, dat)"
| "np_index shp dat (NewAxis # items) =
     (case np_index shp dat items of Inl e \<Rightarrow> Inl e | Inr (s, d) \<Rightarrow> Inr (1 # s, d))"
| "np_index [] dat (it # items) = Inl IndexError"
| "np_index (n # shp) dat (Index i # items) =
     (case norm_index n i of
        Inl e \<Rightarrow> Inl e
      | Inr k \<Rightarrow> np_index shp (take (prod_list shp) (drop (k * prod_list shp) dat)) items)"
| "np_index (n # shp) dat (Slice start stop step # items) =
     (case np_index shp (take (prod_list shp) dat) items of
        Inl e \<Rightarrow> Inl e
      | Inr (s, d0) \<Rightarrow>
          (case map_err (\<lambda>k. np_index shp (take (prod_list shp)
                                               (drop (nat k * prod_list shp) dat)) items)
                        (slice_indices n start stop step) of
             Inl e \<Rightarrow> Inl e
           | Inr rs \<Rightarrow>
               Inr (length (slice_indices n start stop step) # s, concat (map snd rs))))"

definition np_getitems :: "ndarray \<Rightarrow> index_item list \<Rightarrow> error + ndarray" where
  "np_getitems a items =
     (case np_index (arr_shape a) (arr_data a) items of
        Inl e \<Rightarrow> Inl e
      | Inr (s, d) \<Rightarrow> Inr \<lparr> arr_shape = s, arr_data = d \<rparr>)"

text \<open>\<open>a.shape[i]\<close> raises IndexError for an axis the array does not have.\<close>

definition shape_at :: "ndarray \<Rightarrow> nat \<Rightarrow> error + nat" where
  "shape_at a i = (if i < length (arr_shape a) then Inr (arr_shape a ! i) else Inl IndexError)"

definition get_slice :: "nat \<Rightarrow> real \<Rightarrow> index_item" where
  "get_slice len sign =
     (if sign = 1 then Slice 0 (Some (int len)) 1 else Slice (int len - 1) None (- 1))"

text \<open>
  The first part of \<open>slice_data\<close>, up to the two calls of \<open>is_ortho_vector\<close>: the origin and
  the normal of the plane in data co-ordinates, the normal scaled by the squared spacings
  (\<open>scaled_normal\<close>), the data axis closest to it with the two basis vectors of the slice
  and its shape (\<open>slice_frame\<close>), and the transformation and offset that are returned. The plane enters only through \<open>grid_to_grid\<close>, so it is a grid here. The
  entries of the scaled normal are numpy floats: dividing by a zero entry does not raise but
  gives NaN, which real numbers do not have; the model stops with FloatingPointError there.
\<close>

record geometry =
  data_origin :: "real list"
  data_naxis :: nat
  slice_basis :: matrix
  slice_shape :: "nat list"
  trans_v :: matrix
  slice_origin :: "real list"
  offset :: "real list"

definition scaled_normal :: "datagrid qpdata \<Rightarrow> real list \<Rightarrow> error + real list" where
  "scaled_normal self d_normal =
     (if length d_normal < 3 \<or> length (spacing (grid self)) < 3 then Inl IndexError
      else Inr (map (\<lambda>idx. d_normal ! idx * spacing (grid self) ! idx
                            * spacing (grid self) ! idx) [0..<3]))"

definition basis_vector :: "real list \<Rightarrow> nat \<Rightarrow> nat \<Rightarrow> real list" where
  "basis_vector dsn naxis axis = ([0, 0, 0][axis := 1])[naxis := - (dsn ! axis / dsn ! naxis)]"

definition slice_frame :: "real list \<Rightarrow> ndarray \<Rightarrow> error + nat \<times> matrix \<times> nat list" where
  "slice_frame dsn rawd =
     (let naxis = argmax (map abs dsn);
          data_axes = del_at naxis [0..<3]
      in if dsn ! naxis = 0 then Inl FloatingPointError
         else and_then (map_err (shape_at rawd) data_axes)
                (\<lambda>s_shape. Inr (naxis, map (basis_vector dsn naxis) data_axes, s_shape)))"

definition slice_geometry :: "datagrid qpdata \<Rightarrow> datagrid \<Rightarrow> ndarray \<Rightarrow> error + geometry" where
  "slice_geometry self plane rawd =
     and_then (grid_to_grid (grid self) [0, 0, 0] (Some plane) None False) (\<lambda>d_origin.
     and_then (grid_to_grid (grid self) [0, 0, 1] (Some plane) None True) (\<lambda>d_normal.
     and_then (scaled_normal self d_normal) (\<lambda>dsn.
     and_then (slice_frame dsn rawd) (\<lambda>(naxis, s_basis, s_shape).
     and_then (grid_to_grid (grid self) (s_basis ! 0) None (Some plane) True) (\<lambda>t0.
     and_then (grid_to_grid (grid self) (s_basis ! 1) None (Some plane) True) (\<lambda>t1.
       if length t0 < 3 \<or> length t1 < 3 then Inl IndexError
       else if length d_origin \<noteq> 3 then Inl ValueError
       else
         (let s_origin = [0, 0, 0][naxis := sum_list (map2 (*) d_origin dsn) / dsn ! naxis];
              data_offset = map2 (\<lambda>a b. a - b + 1 / 2) d_origin s_origin
          in and_then (grid_to_grid (grid self) data_offset None (Some plane) True)
               (\<lambda>off.
                  Inr \<lparr> data_origin = d_origin, data_naxis = naxis,
                        slice_basis = s_basis, slice_shape = s_shape,
                        trans_v = map (del_at 2) [t0, t1],
                        slice_origin = s_origin,
                        offset = map uminus (take 2 off) \<rparr>))))))))"

text \<open>
  \<open>pg.affineSlice\<close>, from the module's private copy of the pyqtgraph functions, is not among
  the sources; it is a parameter, called with the array, the shape, the origin, the basis
  vectors, the order and the fill value (None where the call gives none).
\<close>

type_synonym affine_slice_fn =
  "ndarray \<Rightarrow> nat list \<Rightarrow> real list \<Rightarrow> matrix \<Rightarrow> nat \<Rightarrow> real option \<Rightarrow> error + ndarray"

text \<open>The axis-aligned branch, after both basis vectors were found to be ortho vectors.\<close>

definition slice_ortho ::
  "ndarray \<Rightarrow> geometry \<Rightarrow> nat \<times> real \<Rightarrow> nat \<times> real \<Rightarrow> error + ndarray \<times> ndarray"
where
  "slice_ortho rawd geo o1 o2 =
     (if 3 \<le> fst o1 \<or> 3 \<le> fst o2 then Inl IndexError
      else
        and_then (shape_at rawd (fst o1)) (\<lambda>n1.
        and_then (shape_at rawd (fst o2)) (\<lambda>n2.
          (let slices = [NewAxis, NewAxis, NewAxis];
               slices = slices[fst o1 := get_slice n1 (snd o1)];
               slices = slices[fst o2 := get_slice n2 (snd o2)];
               pos = round_half_up (data_origin geo ! data_naxis geo)
           in
           and_then (shape_at rawd (data_naxis geo)) (\<lambda>nn.
             if 0 \<le> pos \<and> pos < int nn then
               and_then (np_getitems rawd (slices[data_naxis geo := Index pos])) (\<lambda>sdata.
                 Inr (sdata, np_ones (slice_shape geo)))
             else Inr (np_zeros (slice_shape geo), np_zeros (slice_shape geo)))))))"

text \<open>The general branch: nearest neighbour and a full mask for an ROI, else the fill value
  \<open>dmin - 100\<close> marks what lies outside and is zeroed in the data and in the mask.\<close>

definition slice_affine ::
  "affine_slice_fn \<Rightarrow> datagrid qpdata \<Rightarrow> ndarray \<Rightarrow> geometry \<Rightarrow> nat \<Rightarrow> error + ndarray \<times> ndarray"
where
  "slice_affine affineSlice self rawd geo interp_order =
     (if roi self then
        and_then (affineSlice rawd (slice_shape geo) (slice_origin geo) (slice_basis geo) 0 None)
          (\<lambda>sdata. Inr (sdata, np_ones (arr_shape sdata)))
      else if arr_data rawd = [] then Inl ValueError
      else
        (let dmin = Min (set (arr_data rawd)) in
         and_then (affineSlice rawd (slice_shape geo) (slice_origin geo) (slice_basis geo)
                     interp_order (Some (dmin - 100)))
           (\<lambda>sdata. Inr (sdata\<lparr>arr_data := map (\<lambda>v. if v < dmin then 0 else v) (arr_data sdata)\<rparr>,
                           \<lparr> arr_shape = arr_shape sdata,
                             arr_data = map (\<lambda>v. if v < dmin then 0 else 1) (arr_data sdata) \<rparr>))))"

definition slice_data ::
  "affine_slice_fn \<Rightarrow> datagrid qpdata \<Rightarrow> datagrid \<Rightarrow> int \<Rightarrow> nat
     \<Rightarrow> error + ndarray \<times> ndarray \<times> matrix \<times> real list"
where
  "slice_data affineSlice self plane vol interp_order =
     and_then (volume self vol) (\<lambda>rawd.
     and_then (slice_geometry self plane rawd) (\<lambda>geo.
     and_then (is_ortho_vector (slice_basis geo ! 0) (slice_shape geo ! 0)) (\<lambda>o1.
     and_then (is_ortho_vector (slice_basis geo ! 1) (slice_shape geo ! 0)) (\<lambda>o2.
     and_then (case (o1, o2) of
                 (Some a1, Some a2) \<Rightarrow> slice_ortho rawd geo a1 a2
               | _ \<Rightarrow> slice_affine affineSlice self rawd geo interp_order)
       (\<lambda>(sdata, smask). Inr (sdata, smask, trans_v geo, offset geo))))))"

section \<open>Facts about the helpers\<close>

lemma list3_explicit:
  assumes "length xs = 3"
  obtains a b c where "xs = [a, b, c]"
proof -
  from assms obtain a ys where 1: "xs = a # ys" and "length ys = 2"
    by (cases xs) auto
  then obtain b zs where 2: "ys = b # zs" and "length zs = 1"
    by (cases ys) auto
  then obtain c where "zs = [c]"
    by (cases zs) auto
  with 1 2 that show thesis by simp
qed

lemma list4_explicit:
  assumes "length xs = 4"
  obtains a b c d where "xs = [a, b, c, d]"
proof -
  from assms obtain a ys where 1: "xs = a # ys" and "length ys = 3"
    by (cases xs) auto
  then obtain b c d where "ys = [b, c, d]"
    by (auto elim: list3_explicit)
  with 1 that show thesis by simp
qed

lemma is_4x4_explicit:
  assumes "is_4x4 m"
  obtains a0 a1 a2 a3 b0 b1 b2 b3 c0 c1 c2 c3 d0 d1 d2 d3 where
    "m = [[a0, a1, a2, a3], [b0, b1, b2, b3], [c0, c1, c2, c3], [d0, d1, d2, d3 :: real]]"
proof -
  from assms have len: "length m = 4" by (simp add: is_4x4_def)
  then obtain r0 r1 r2 r3 where m: "m = [r0, r1, r2, r3]"
    by (auto elim: list4_explicit)
  with assms have "length r0 = 4" "length r1 = 4" "length r2 = 4" "length r3 = 4"
    by (simp_all add: is_4x4_def)
  then obtain a0 a1 a2 a3 b0 b1 b2 b3 c0 c1 c2 c3 d0 d1 d2 d3 where
    "r0 = [a0, a1, a2, a3]" "r1 = [b0, b1, b2, b3]"
    "r2 = [c0, c1, c2, c3]" "r3 = [d0, d1, d2, d3]"
    by (metis list4_explicit)
  with m that show thesis by simp
qed

lemma det_3x3:
  "det [[a, b, c], [d, e, f], [g, h, i]] =
     a * (e * i - f * h) - b * (d * i - f * g) + c * (d * h - e * g)"
  by (simp add: det_def minor_def del_at_def upt_rec algebra_simps)

lemma linalg_inv_3x3:
  "linalg_inv [[a, b, c], [d, e, f], [g, h, i]] =
     (let D = det [[a, b, c], [d, e, f], [g, h, i]] in
      if D = 0 then Inl LinAlgError
      else Inr [[(e * i - f * h) / D, (c * h - b * i) / D, (b * f - c * e) / D],
                [(f * g - d * i) / D, (a * i - c * g) / D, (c * d - a * f) / D],
                [(d * h - e * g) / D, (b * g - a * h) / D, (a * e - b * d) / D]])"
  by (simp add: linalg_inv_def is_square_def cofactor_def det_def minor_def del_at_def
        upt_rec Let_def algebra_simps)

lemma DataGrid_explicit:
  assumes "DataGrid shp aff = Inr g"
  obtains a0 a1 a2 a3 b0 b1 b2 b3 c0 c1 c2 c3 d0 d1 d2 d3 where
    "aff = [[a0, a1, a2, a3], [b0, b1, b2, b3], [c0, c1, c2, c3], [d0, d1, d2, d3]]"
    "affine g = aff" "shape g = shp" "length shp = 3"
    "transform g = [[a0, a1, a2], [b0, b1, b2], [c0, c1, c2]]"
    "origin g = [a3, b3, c3]"
    "linalg_inv (transform g) = Inr (inv_transform g)"
    "spacing g = [linalg_norm [a0, b0, c0, d0], linalg_norm [a1, b1, c1, d1],
                  linalg_norm [a2, b2, c2, d2]]"
proof -
  from assms have sh: "length shp = 3" and a: "is_4x4 aff"
    by (auto simp: DataGrid_def split: if_splits)
  from a obtain a0 a1 a2 a3 b0 b1 b2 b3 c0 c1 c2 c3 d0 d1 d2 d3 where
    aff: "aff = [[a0, a1, a2, a3], [b0, b1, b2, b3], [c0, c1, c2, c3], [d0, d1, d2, d3]]"
    by (rule is_4x4_explicit)
  from assms sh a aff show thesis
    by (intro that[of a0 a1 a2 a3 b0 b1 b2 b3 c0 c1 c2 c3 d0 d1 d2 d3])
       (auto simp: DataGrid_def Let_def col_def upt_rec split: sum.splits)
qed

lemma div3:
  fixes D :: real
  assumes "D \<noteq> 0" and "p * A + q * B + r * C = D * x"
  shows "p / D * A + q / D * B + r / D * C = x"
proof -
  have "p / D * A + q / D * B + r / D * C = (p * A + q * B + r * C) / D"
    by (simp add: add_divide_distrib)
  with assms show ?thesis by simp
qed

lemma inv_dot_3x3:
  assumes "linalg_inv [[a, b, c], [d, e, f], [g, h, i]] = Inr m"
  shows "np_dot m [a*x+(b*y+c*z), d*x+(e*y+f*z), g*x+(h*y+i*z)] = Inr [x,y,z]"
proof -
  define D where "D = det [[a, b, c], [d, e, f], [g, h, i]]"
  from assms have D: "D \<noteq> 0"
    and m: "m = [[(e * i - f * h) / D, (c * h - b * i) / D, (b * f - c * e) / D],
                [(f * g - d * i) / D, (a * i - c * g) / D, (c * d - a * f) / D],
                [(d * h - e * g) / D, (b * g - a * h) / D, (a * e - b * d) / D]]"
    by (auto simp: linalg_inv_3x3 Let_def D_def split: if_splits)
  have e1: "(e * i - f * h) * (a*x+b*y+c*z) + (c * h - b * i) * (d*x+e*y+f*z)
              + (b * f - c * e) * (g*x+h*y+i*z) = D * x"
    by (simp add: D_def det_3x3 algebra_simps)
  have e2: "(f * g - d * i) * (a*x+b*y+c*z) + (a * i - c * g) * (d*x+e*y+f*z)
              + (c * d - a * f) * (g*x+h*y+i*z) = D * y"
    by (simp add: D_def det_3x3 algebra_simps)
  have e3: "(d * h - e * g) * (a*x+b*y+c*z) + (b * g - a * h) * (d*x+e*y+f*z)
              + (a * e - b * d) * (g*x+h*y+i*z) = D * z"
    by (simp add: D_def det_3x3 algebra_simps)
  show ?thesis
    unfolding m np_dot_def
    using div3[OF D e1] div3[OF D e2] div3[OF D e3] by (simp add: add.assoc)
qed


lemma take3_cases:
  assumes "3 \<le> length (c :: real list)"
  obtains x y z where "take 3 c = [x, y, z]"
proof -
  have "length (take 3 c) = 3" using assms by simp
  then show thesis using that by (rule list3_explicit)
qed


lemma linalg_inv_3x3_shape:
  assumes "linalg_inv [[a, b, c], [d, e, f], [g, h, i]] = Inr m"
  obtains r0 r1 r2 where "m = [r0, r1, r2]" "length r0 = 3" "length r1 = 3" "length r2 = 3"
  using assms by (auto simp: linalg_inv_3x3 Let_def split: if_splits)

lemma grid_to_world_total:
  assumes g: "DataGrid shp aff = Inr g" and c: "3 \<le> length c"
  shows "\<exists>w. grid_to_world g c direction = Inr w
           \<and> length w = (if length c = 4 then 4 else 3)
           \<and> (length c = 4 \<longrightarrow> w ! 3 = c ! 3)"
proof -
  from g obtain a0 a1 a2 a3 b0 b1 b2 b3 c0 c1 c2 c3 where
    tr: "transform g = [[a0, a1, a2], [b0, b1, b2], [c0, c1, c2]]"
    and org: "origin g = [a3, b3, c3]"
    by (auto elim!: DataGrid_explicit)
  from c obtain x y z where t: "take 3 c = [x, y, z]" by (rule take3_cases)
  show ?thesis
    by (simp add: grid_to_world_def tr org t np_dot_def nth_append)
qed

lemma world_to_grid_total:
  assumes g: "DataGrid shp aff = Inr g" and c: "3 \<le> length c"
  shows "\<exists>w. world_to_grid g c direction = Inr w
           \<and> length w = (if length c = 4 then 4 else 3)
           \<and> (length c = 4 \<longrightarrow> w ! 3 = c ! 3)"
proof -
  from g obtain a0 a1 a2 a3 b0 b1 b2 b3 c0 c1 c2 c3 where
    tr: "transform g = [[a0, a1, a2], [b0, b1, b2], [c0, c1, c2]]"
    and org: "origin g = [a3, b3, c3]"
    and inv: "linalg_inv (transform g) = Inr (inv_transform g)"
    by (auto elim!: DataGrid_explicit)
  from inv obtain r0 r1 r2 where
    m: "inv_transform g = [r0, r1, r2]" "length r0 = 3" "length r1 = 3" "length r2 = 3"
    unfolding tr by (rule linalg_inv_3x3_shape)
  from c obtain x y z where t: "take 3 c = [x, y, z]" by (rule take3_cases)
  show ?thesis
    by (simp add: world_to_grid_def m org t np_dot_def nth_append Let_def)
qed

section \<open>Coordinate round trip\<close>

text \<open>
  Claim C1. For a grid built by \<open>DataGrid\<close> (so its transform is invertible) and a 3D or 4D
  coordinate \<open>c\<close>, \<open>grid_to_world\<close> returns a world coordinate that \<open>world_to_grid\<close> maps
  back to \<open>c\<close> (exactly, entries being real numbers), with or without the translation; for
  a 4D coordinate the fourth entry is returned unchanged by \<open>grid_to_world\<close> and by
  \<open>world_to_grid\<close>.
\<close>

theorem world_to_grid_grid_to_world:
  assumes g: "DataGrid shp aff = Inr g"
    and c: "length c = 3 \<or> length c = 4"
  shows "\<exists>w. grid_to_world g c direction = Inr w
            \<and> world_to_grid g w direction = Inr c
            \<and> (length c = 4 \<longrightarrow>
                 w ! 3 = c ! 3
                 \<and> (\<exists>v. world_to_grid g c direction = Inr v \<and> v ! 3 = c ! 3))"
proof -
  from g obtain a0 a1 a2 a3 b0 b1 b2 b3 c0 c1 c2 c3 where
    tr: "transform g = [[a0, a1, a2], [b0, b1, b2], [c0, c1, c2]]"
    and org: "origin g = [a3, b3, c3]"
    and inv: "linalg_inv (transform g) = Inr (inv_transform g)"
    by (auto elim!: DataGrid_explicit)
  note rt = inv_dot_3x3[OF inv[unfolded tr]]
  from c have c3: "3 \<le> length c" by auto
  from c show ?thesis
  proof
    assume "length c = 3"
    then obtain x y z where cc: "c = [x, y, z]" by (auto elim: list3_explicit)
    show ?thesis
      using rt[of x y z]
      by (cases direction)
         (simp_all add: cc grid_to_world_def world_to_grid_def tr org np_dot_def[of "[_, _, _]"])
  next
    assume l4: "length c = 4"
    then obtain x y z t where cc: "c = [x, y, z, t]" by (auto elim: list4_explicit)
    from world_to_grid_total[OF g c3, of direction] l4
    have "\<exists>v. world_to_grid g c direction = Inr v \<and> v ! 3 = c ! 3" by auto
    moreover have "\<exists>w. grid_to_world g c direction = Inr w
            \<and> world_to_grid g w direction = Inr c \<and> w ! 3 = c ! 3"
      using rt[of x y z]
      by (cases direction)
         (simp_all add: cc grid_to_world_def world_to_grid_def tr org np_dot_def[of "[_, _, _]"])
    ultimately show ?thesis by auto
  qed
qed

lemma DataGrid_unit:
  "DataGrid [1, 1, 1] (identity 4) =
     Inr \<lparr> shape = [1, 1, 1], affine = [[1, 0, 0, 0], [0, 1, 0, 0], [0, 0, 1, 0], [0, 0, 0, 1]],
           origin = [0, 0, 0], transform = [[1, 0, 0], [0, 1, 0], [0, 0, 1]],
           inv_transform = [[1, 0, 0], [0, 1, 0], [0, 0, 1]],
           spacing = [1, 1, 1], nvoxels = 1 \<rparr>"
  by (simp add: DataGrid_def identity_def is_4x4_def upt_rec col_def linalg_inv_3x3 det_3x3
        linalg_norm_def Let_def)

theorem world_to_grid_grid_to_world_witness:
  "\<exists>g w. DataGrid [1, 1, 1] (identity 4) = Inr g
     \<and> grid_to_world g [1, 2, 3, 4] False = Inr w
     \<and> world_to_grid g w False = Inr [1, 2, 3, 4] \<and> w ! 3 = 4"
  using world_to_grid_grid_to_world[OF DataGrid_unit, of "[1, 2, 3, 4]" False]
  by (auto simp: DataGrid_unit)

section \<open>grid_to_grid: exactly one of from_grid and to_grid\<close>

text \<open>
  Claim C7. With grids built by \<open>DataGrid\<close> and a coordinate of at least three entries,
  \<open>grid_to_grid\<close> returns exactly when exactly one of \<open>from_grid\<close> and \<open>to_grid\<close> is
  given; with neither or both it raises RuntimeError, whatever the coordinate is.
\<close>

theorem grid_to_grid_exactly_one:
  assumes self: "DataGrid s0 a0 = Inr self"
    and f: "DataGrid s1 a1 = Inr f" and t: "DataGrid s2 a2 = Inr t"
    and fg: "from_grid = None \<or> from_grid = Some f"
    and tg: "to_grid = None \<or> to_grid = Some t"
    and len: "3 \<le> length coord"
  shows "((\<exists>r. grid_to_grid self coord from_grid to_grid direction = Inr r)
            = ((from_grid = None) \<noteq> (to_grid = None)))
       \<and> ((from_grid = None) = (to_grid = None) \<longrightarrow>
            (\<forall>c. grid_to_grid self c from_grid to_grid direction = Inl RuntimeError))"
proof -
  have ok: "\<exists>r. (case grid_to_world p coord direction of
                   Inl e \<Rightarrow> Inl e | Inr world \<Rightarrow> world_to_grid q world direction) = Inr r"
    if p: "DataGrid sp ap = Inr p" and q: "DataGrid sq aq = Inr q" for p q sp ap sq aq
  proof -
    from grid_to_world_total[OF p len, of direction] obtain w where
      w: "grid_to_world p coord direction = Inr w" "3 \<le> length w"
      by (auto split: if_splits)
    from world_to_grid_total[OF q w(2), of direction] w(1) show ?thesis by auto
  qed
  from fg tg show ?thesis
    using ok[OF f self] ok[OF self t]
    by (auto simp: grid_to_grid_def)
qed

theorem grid_to_grid_exactly_one_witness:
  "\<exists>g. DataGrid [1, 1, 1] (identity 4) = Inr g
     \<and> (\<exists>r. grid_to_grid g [1, 2, 3] (Some g) None False = Inr r)
     \<and> (\<exists>r. grid_to_grid g [1, 2, 3] None (Some g) False = Inr r)
     \<and> grid_to_grid g [1, 2, 3] None None False = Inl RuntimeError
     \<and> grid_to_grid g [1, 2, 3] (Some g) (Some g) False = Inl RuntimeError"
  using grid_to_grid_exactly_one[OF DataGrid_unit DataGrid_unit DataGrid_unit,
          of "Some _" None "[1, 2, 3]" False]
    grid_to_grid_exactly_one[OF DataGrid_unit DataGrid_unit DataGrid_unit,
          of None "Some _" "[1, 2, 3]" False]
    grid_to_grid_exactly_one[OF DataGrid_unit DataGrid_unit DataGrid_unit,
          of None None "[1, 2, 3]" False]
    grid_to_grid_exactly_one[OF DataGrid_unit DataGrid_unit DataGrid_unit,
          of "Some _" "Some _" "[1, 2, 3]" False]
  by (simp add: DataGrid_unit)

section \<open>get_ras_axes\<close>

lemma argmax_from_less:
  "best < i \<Longrightarrow> argmax_from best bv i xs < i + length xs"
proof (induction xs arbitrary: best bv i)
  case Nil
  then show ?case by simp
next
  case (Cons a xs)
  from Cons.IH[of i "Suc i" a] Cons.IH[of best "Suc i" bv] Cons.prems
  show ?case by auto
qed

lemma argmax_less: "xs \<noteq> [] \<Longrightarrow> argmax xs < length xs"
  using argmax_from_less[of 0 1] by (cases xs) (auto simp: argmax_def)

lemma less3_cases: "(n::nat) < 3 \<Longrightarrow> n = 0 \<or> n = 1 \<or> n = 2"
  by arith

lemma index_all_iff_distinct:
  assumes "p < 3" "q < 3" "r < 3"
  shows "(\<exists>ga. map_err (list_index [p, q, r]) [0..<3] = Inr ga) = distinct [p, q, r]"
    and "\<not> distinct [p, q, r] \<Longrightarrow> map_err (list_index [p, q, r]) [0..<3] = Inl ValueError"
    and "map_err (list_index [p, q, r]) [0..<3] = Inr ga \<Longrightarrow> length ga = 3"
proof -
  from assms have c: "p = 0 \<or> p = 1 \<or> p = 2" "q = 0 \<or> q = 1 \<or> q = 2"
    "r = 0 \<or> r = 1 \<or> r = 2"
    by (auto dest: less3_cases)
  from c show "(\<exists>ga. map_err (list_index [p, q, r]) [0..<3] = Inr ga) = distinct [p, q, r]"
    by (elim disjE; simp add: upt_rec)
  from c show "\<not> distinct [p, q, r] \<Longrightarrow> map_err (list_index [p, q, r]) [0..<3] = Inl ValueError"
    by (elim disjE; simp add: upt_rec)
  from c show "map_err (list_index [p, q, r]) [0..<3] = Inr ga \<Longrightarrow> length ga = 3"
    by (elim disjE; auto simp add: upt_rec)
qed

lemma world_axes_valid:
  assumes "DataGrid shp aff = Inr g"
  shows "\<exists>p q r. world_axes g = Inr [p, q, r] \<and> p < 3 \<and> q < 3 \<and> r < 3"
proof -
  from assms obtain a0 a1 a2 b0 b1 b2 c0 c1 c2 where
    tr: "transform g = [[a0, a1, a2], [b0, b1, b2], [c0, c1, c2]]"
    by (auto elim!: DataGrid_explicit)
  have "argmax [x, y, z] < 3" for x y z
    using argmax_less[of "[x, y, z]"] by simp
  then show ?thesis
    by (simp add: world_axes_def tr upt_rec np_col_def np_argmax_def col_def)
qed

text \<open>
  Claim C9. For a grid built by \<open>DataGrid\<close>, \<open>world_axes\<close> (the row of the largest absolute
  entry of each transform column) is a list \<open>wa\<close> of three axes, and \<open>get_ras_axes\<close> returns
  exactly when \<open>wa\<close> has no repeated entry, that is, when it is a bijection on the three axes;
  what it returns has four entries, the last being 3; when two grid axes share their dominant
  world axis it raises ValueError.
\<close>

theorem get_ras_axes_iff_bijection:
  assumes "DataGrid shp aff = Inr g"
  shows "\<exists>wa. world_axes g = Inr wa \<and> length wa = 3 \<and> set wa \<subseteq> {0, 1, 2}
       \<and> ((\<exists>r. get_ras_axes g = Inr r) = distinct wa)
       \<and> (\<forall>r. get_ras_axes g = Inr r \<longrightarrow> length r = 4 \<and> r ! 3 = 3)
       \<and> ((\<exists>i<3. \<exists>j<3. i \<noteq> j \<and> wa ! i = wa ! j) \<longrightarrow> get_ras_axes g = Inl ValueError)"
proof -
  from world_axes_valid[OF assms] obtain p q r where
    wa: "world_axes g = Inr [p, q, r]" and lt: "p < 3" "q < 3" "r < 3"
    by auto
  have ras: "get_ras_axes g =
     (case map_err (list_index [p, q, r]) [0..<3] of
             Inl e \<Rightarrow> Inl e
           | Inr grid_axes \<Rightarrow> Inr (grid_axes @ [3]))"
    by (simp add: get_ras_axes_def wa)
  have dup: "\<not> distinct [p, q, r]" if "i < 3" "j < 3" "i \<noteq> j" "[p, q, r] ! i = [p, q, r] ! j"
    for i j :: nat
    using that by (auto dest!: less3_cases)
  have sub: "set [p, q, r] \<subseteq> {0, 1, 2}"
    using lt by (auto dest!: less3_cases)
  have 1: "(\<exists>r'. get_ras_axes g = Inr r') = distinct [p, q, r]"
    unfolding ras using index_all_iff_distinct(1)[OF lt] by (auto split: sum.splits)
  have 2: "\<forall>r'. get_ras_axes g = Inr r' \<longrightarrow> length r' = 4 \<and> r' ! 3 = 3"
    unfolding ras using index_all_iff_distinct(3)[OF lt]
    by (auto split: sum.splits simp: nth_append)
  have 3: "(\<exists>i<3. \<exists>j<3. i \<noteq> j \<and> [p, q, r] ! i = [p, q, r] ! j) \<longrightarrow>
            get_ras_axes g = Inl ValueError"
    unfolding ras using index_all_iff_distinct(2)[OF lt] dup by auto
  from wa sub 1 2 3 show ?thesis by simp
qed

theorem get_ras_axes_iff_bijection_witness:
  "\<exists>g. DataGrid [1, 1, 1] (identity 4) = Inr g
     \<and> world_axes g = Inr [0, 1, 2] \<and> get_ras_axes g = Inr [0, 1, 2, 3]"
  using get_ras_axes_iff_bijection[OF DataGrid_unit]
  by (simp add: DataGrid_unit world_axes_def get_ras_axes_def np_col_def np_argmax_def
        argmax_def col_def upt_rec)

section \<open>get_standard keeps the spacings\<close>

lemma set_col_map: "set_col m j (map f (col m j)) = map (\<lambda>r. r[j := f (r ! j)]) m"
  by (induction m) (simp_all add: set_col_def col_def)

lemma flip_step_is_4x4:
  "is_4x4 m \<Longrightarrow> is_4x4 (set_col m j (map uminus (col m j)))"
  by (simp add: set_col_map is_4x4_def list_all_iff)

lemma flip_step_squares:
  "map (\<lambda>x. x * x) (col (set_col m j (map uminus (col m j))) i) = map (\<lambda>x. x * x) (col m i)"
proof -
  have "(r[j := - (r ! j)] ! i) * (r[j := - (r ! j)] ! i) = (r ! i) * (r ! i)" for r :: "real list"
    by (cases "i = j"; cases "j < length r") (simp_all add: list_update_beyond)
  then show ?thesis
    unfolding set_col_map by (simp add: col_def)
qed

lemma flip_cols_norm:
  "linalg_norm (col (flip_cols fl m) i) = linalg_norm (col m i)"
proof (induction fl arbitrary: m)
  case Nil
  then show ?case by (simp add: flip_cols_def)
next
  case (Cons d fl)
  have "flip_cols (d # fl) m = flip_cols fl (set_col m d (map uminus (col m d)))"
    by (simp add: flip_cols_def)
  then show ?case
    using Cons.IH[of "set_col m d (map uminus (col m d))"] flip_step_squares[of m d i]
    by (simp add: linalg_norm_def)
qed

lemma flip_cols_is_4x4: "is_4x4 m \<Longrightarrow> is_4x4 (flip_cols fl m)"
proof (induction fl arbitrary: m)
  case Nil
  then show ?case by (simp add: flip_cols_def)
next
  case (Cons d fl)
  have "flip_cols (d # fl) m = flip_cols fl (set_col m d (map uminus (col m d)))"
    by (simp add: flip_cols_def)
  with Cons show ?case by (simp add: flip_step_is_4x4)
qed

lemma adjust_step_nth:
  "k < length nm \<Longrightarrow> adjust_step ns d nm ! k =
     (if k < 3 then (nm ! k)[3 := nm ! k ! 3 - nm ! k ! d * real_of_int (ns ! d - 1)] else nm ! k)"
  by (simp add: adjust_step_def)

lemma adjust_step_length: "length (adjust_step ns d nm) = length nm"
  by (simp add: adjust_step_def)

lemma adjust_step_col: "i \<noteq> 3 \<Longrightarrow> col (adjust_step ns d nm) i = col nm i"
  by (rule nth_equalityI) (simp_all add: col_def adjust_step_length adjust_step_nth)

lemma adjust_step_is_4x4: "is_4x4 nm \<Longrightarrow> is_4x4 (adjust_step ns d nm)"
  by (auto simp: is_4x4_def adjust_step_length list_all_length adjust_step_nth)

lemma adjust_step_sub:
  "map (take 3) (take 3 (adjust_step ns d nm)) = map (take 3) (take 3 nm)"
  by (rule nth_equalityI) (simp_all add: adjust_step_length adjust_step_nth)

lemma adjust_origin_Cons:
  "adjust_origin ns (d # fl) nm = adjust_origin ns fl (adjust_step ns d nm)"
  by (simp add: adjust_origin_def)

lemma adjust_origin_col: "i \<noteq> 3 \<Longrightarrow> col (adjust_origin ns fl nm) i = col nm i"
  by (induction fl arbitrary: nm) (simp_all add: adjust_origin_Cons adjust_step_col, simp add: adjust_origin_def)

lemma adjust_origin_is_4x4: "is_4x4 nm \<Longrightarrow> is_4x4 (adjust_origin ns fl nm)"
  by (induction fl arbitrary: nm) (simp_all add: adjust_origin_Cons adjust_step_is_4x4, simp add: adjust_origin_def)

lemma adjust_origin_sub:
  "map (take 3) (take 3 (adjust_origin ns fl nm)) = map (take 3) (take 3 nm)"
  by (induction fl arbitrary: nm) (simp_all add: adjust_origin_Cons adjust_step_sub, simp add: adjust_origin_def)


lemma sort3_perm:
  assumes "sort [p, q, r] = [0, 1, 2::nat]"
  shows "(p = 0 \<and> q = 1 \<and> r = 2) \<or> (p = 0 \<and> q = 2 \<and> r = 1) \<or> (p = 1 \<and> q = 0 \<and> r = 2)
       \<or> (p = 1 \<and> q = 2 \<and> r = 0) \<or> (p = 2 \<and> q = 0 \<and> r = 1) \<or> (p = 2 \<and> q = 1 \<and> r = 0)"
proof -
  have s: "set (sort [p, q, r]) = set [p, q, r]" by (rule set_sort)
  have mem: "x \<in> set [p, q, r] \<Longrightarrow> x = 0 \<or> x = 1 \<or> x = 2" for x
    unfolding s[symmetric] assms by simp
  have c: "p = 0 \<or> p = 1 \<or> p = 2" "q = 0 \<or> q = 1 \<or> q = 2" "r = 0 \<or> r = 1 \<or> r = 2"
    by (rule mem, simp)+
  have "distinct (sort [p, q, r])" unfolding assms by simp
  then have "distinct [p, q, r]" by (simp only: distinct_sort)
  then have d: "p \<noteq> q" "p \<noteq> r" "q \<noteq> r" by simp_all
  from c d show ?thesis by blast
qed

lemma DataGrid_facts:
  assumes "DataGrid shp aff = Inr g"
  shows "length shp = 3" "is_4x4 aff" "det (map (take 3) (take 3 aff)) \<noteq> 0"
    "spacing g = map (\<lambda>i. linalg_norm (col aff i)) [0..<3]" "shape g = shp" "affine g = aff"
  using assms
  by (auto simp: DataGrid_def Let_def linalg_inv_def split: if_splits sum.splits)

lemma DataGrid_success:
  assumes "length shp = 3" "is_4x4 aff" "det (map (take 3) (take 3 aff)) \<noteq> 0"
  shows "\<exists>g. DataGrid shp aff = Inr g \<and> spacing g = map (\<lambda>i. linalg_norm (col aff i)) [0..<3]"
proof -
  from assms(2) obtain a0 a1 a2 a3 b0 b1 b2 b3 c0 c1 c2 c3 d0 d1 d2 d3 where
    aff: "aff = [[a0, a1, a2, a3], [b0, b1, b2, b3], [c0, c1, c2, c3], [d0, d1, d2, d3]]"
    by (rule is_4x4_explicit)
  have "is_square (map (take 3) (take 3 aff))"
    by (simp add: aff is_square_def)
  with assms show ?thesis
    by (simp add: DataGrid_def Let_def linalg_inv_def)
qed

lemma scan_explicit:
  assumes "is_4x4 A"
  shows "\<exists>n0 n1 n2 fl. fold_err (scan_dim A) [0..<3] ([], []) = Inr ([n0, n1, n2], fl)"
proof -
  from assms obtain a0 a1 a2 a3 b0 b1 b2 b3 c0 c1 c2 c3 d0 d1 d2 d3 where
    A: "A = [[a0, a1, a2, a3], [b0, b1, b2, b3], [c0, c1, c2, c3], [d0, d1, d2, d3]]"
    by (rule is_4x4_explicit)
  show ?thesis
    by (simp add: A upt_rec scan_dim_def np_col_def np_argmax_def col_def)
qed

lemma move_cols_perm:
  assumes "is_4x4 A"
    and "(p = 0 \<and> q = 1 \<and> r = 2) \<or> (p = 0 \<and> q = 2 \<and> r = 1) \<or> (p = 1 \<and> q = 0 \<and> r = 2)
       \<or> (p = 1 \<and> q = 2 \<and> r = 0) \<or> (p = 2 \<and> q = 0 \<and> r = 1) \<or> (p = 2 \<and> q = 1 \<and> r = 0)"
  shows "is_4x4 (move_cols A [p, q, r] A)"
    and "mset (map (\<lambda>i. linalg_norm (col (move_cols A [p, q, r] A) i)) [0..<3])
         = mset (map (\<lambda>i. linalg_norm (col A i)) [0..<3])"
    and "det (map (take 3) (take 3 (move_cols A [p, q, r] A))) = det (map (take 3) (take 3 A))
       \<or> det (map (take 3) (take 3 (move_cols A [p, q, r] A))) = - det (map (take 3) (take 3 A))"
proof -
  from assms(1) obtain a0 a1 a2 a3 b0 b1 b2 b3 c0 c1 c2 c3 d0 d1 d2 d3 where
    A: "A = [[a0, a1, a2, a3], [b0, b1, b2, b3], [c0, c1, c2, c3], [d0, d1, d2, d3]]"
    by (rule is_4x4_explicit)
  from assms(2) show "is_4x4 (move_cols A [p, q, r] A)"
    by (elim disjE; simp add: A move_cols_def set_col_def col_def upt_rec is_4x4_def)
  from assms(2) show "mset (map (\<lambda>i. linalg_norm (col (move_cols A [p, q, r] A) i)) [0..<3])
         = mset (map (\<lambda>i. linalg_norm (col A i)) [0..<3])"
    by (elim disjE; simp add: A move_cols_def set_col_def col_def upt_rec add_mset_commute)
  from assms(2) show "det (map (take 3) (take 3 (move_cols A [p, q, r] A))) = det (map (take 3) (take 3 A))
       \<or> det (map (take 3) (take 3 (move_cols A [p, q, r] A))) = - det (map (take 3) (take 3 A))"
    by (elim disjE; simp add: A move_cols_def set_col_def col_def upt_rec det_3x3 algebra_simps)
qed


lemma flip_step_det:
  assumes "is_4x4 m"
  shows "det (map (take 3) (take 3 (set_col m d (map uminus (col m d))))) = det (map (take 3) (take 3 m))
       \<or> det (map (take 3) (take 3 (set_col m d (map uminus (col m d))))) = - det (map (take 3) (take 3 m))"
proof -
  from assms obtain a0 a1 a2 a3 b0 b1 b2 b3 c0 c1 c2 c3 d0 d1 d2 d3 where
    m: "m = [[a0, a1, a2, a3], [b0, b1, b2, b3], [c0, c1, c2, c3], [d0, d1, d2, d3]]"
    by (rule is_4x4_explicit)
  consider "d = 0" | "d = 1" | "d = 2" | "3 \<le> d" by arith
  then show ?thesis
  proof cases
    case 4
    then have "map (take 3) (take 3 (set_col m d (map uminus (col m d))))
                 = map (take 3) (take 3 m)"
      unfolding set_col_map by (simp add: take_map)
    then show ?thesis by simp
  qed (simp_all add: set_col_map m det_3x3 algebra_simps)
qed

lemma flip_cols_det:
  "is_4x4 m \<Longrightarrow> det (map (take 3) (take 3 m)) \<noteq> 0
     \<Longrightarrow> det (map (take 3) (take 3 (flip_cols fl m))) \<noteq> 0"
proof (induction fl arbitrary: m)
  case Nil
  then show ?case by (simp add: flip_cols_def)
next
  case (Cons d fl)
  have eq: "flip_cols (d # fl) m = flip_cols fl (set_col m d (map uminus (col m d)))"
    by (simp add: flip_cols_def)
  from flip_step_det[OF Cons.prems(1), of d] Cons.prems(2)
  have "det (map (take 3) (take 3 (set_col m d (map uminus (col m d))))) \<noteq> 0" by auto
  with Cons.IH[OF flip_step_is_4x4[OF Cons.prems(1)]] show ?case
    unfolding eq by simp
qed

text \<open>
  Claim C8. For a grid built by \<open>DataGrid\<close>, \<open>get_standard\<close> returns a grid, and the spacings
  of that grid are the spacings of the original grid in some order (equal as multisets).
\<close>

theorem get_standard_spacing:
  assumes g: "DataGrid shp aff = Inr g"
  shows "\<exists>g'. get_standard g = Inr g' \<and> mset (spacing g') = mset (spacing g)"
proof -
  note f = DataGrid_facts[OF g]
  from scan_explicit[OF f(2)] obtain n0 n1 n2 fl where
    scan: "fold_err (scan_dim aff) [0..<3] ([], []) = Inr ([n0, n1, n2], fl)" by blast
  from f(1) obtain s0 s1 s2 where shp: "shp = [s0, s1, s2]" by (auto elim: list3_explicit)
  show ?thesis
  proof (cases "sort [n0, n1, n2] = [0..<3]")
    case False
    then have "simplify_transforms g aff = Inr ([0..<3], [], aff)"
      by (simp add: simplify_transforms_def scan)
    then have "get_standard g = DataGrid shp aff"
      by (simp add: get_standard_def f shp upt_rec)
    with g show ?thesis by simp
  next
    case True
    then have "sort [n0, n1, n2] = [0, 1, 2]" by (simp add: upt_rec)
    note perm = sort3_perm[OF this]
    define M where "M = move_cols aff [n0, n1, n2] aff"
    define T where "T = adjust_origin (map (\<lambda>d. shape g ! d) [n0, n1, n2]) fl (flip_cols fl M)"
    note mv = move_cols_perm[OF f(2) perm, folded M_def]
    have F4: "is_4x4 (flip_cols fl M)" by (rule flip_cols_is_4x4[OF mv(1)])
    then have F4': "list_all (\<lambda>r. 3 < length r) (flip_cols fl M)"
      by (simp add: is_4x4_def list_all_iff)
    have simp: "simplify_transforms g aff = Inr ([n0, n1, n2], fl, T)"
      using True F4' by (simp add: simplify_transforms_def scan f Let_def M_def T_def)
    have lt: "list_all (\<lambda>d. d < length (shape g)) [n0, n1, n2]"
      using perm by (auto simp: f)
    have gs: "get_standard g = DataGrid (map (\<lambda>d. shape g ! d) [n0, n1, n2]) T"
      using lt by (simp add: get_standard_def f(6) simp)
    have T4: "is_4x4 T" unfolding T_def by (rule adjust_origin_is_4x4[OF F4])
    from mv(3) f(3) have "det (map (take 3) (take 3 M)) \<noteq> 0" by auto
    from flip_cols_det[OF mv(1) this, of fl]
    have dT: "det (map (take 3) (take 3 T)) \<noteq> 0"
      unfolding T_def by (simp add: adjust_origin_sub)
    from DataGrid_success[OF _ T4 dT, of "map (\<lambda>d. shape g ! d) [n0, n1, n2]"]
    obtain g' where g': "DataGrid (map (\<lambda>d. shape g ! d) [n0, n1, n2]) T = Inr g'"
      and sp: "spacing g' = map (\<lambda>i. linalg_norm (col T i)) [0..<3]" by auto
    have "col T i = col (flip_cols fl M) i" if "i < 3" for i
      unfolding T_def using that by (simp add: adjust_origin_col)
    then have "spacing g' = map (\<lambda>i. linalg_norm (col M i)) [0..<3]"
      unfolding sp by (simp add: flip_cols_norm)
    with mv(2) have "mset (spacing g') = mset (spacing g)"
      by (simp add: f(4))
    with gs g' show ?thesis by simp
  qed
qed

text \<open>
  An example with a transposition and a flip: the second grid axis runs against the first
  world axis from 5 in steps of 2, the first grid axis along the second world axis in steps
  of 3. The standard grid has the axes exchanged and the flipped axis starting at 1.
\<close>

lemma DataGrid_flipped:
  "DataGrid [2, 3, 4] [[0, - 2, 0, 5], [3, 0, 0, 0], [0, 0, 1, 0], [0, 0, 0, 1]] =
     Inr \<lparr> shape = [2, 3, 4],
           affine = [[0, - 2, 0, 5], [3, 0, 0, 0], [0, 0, 1, 0], [0, 0, 0, 1]],
           origin = [5, 0, 0], transform = [[0, - 2, 0], [3, 0, 0], [0, 0, 1]],
           inv_transform = [[0, 1 / 3, 0], [- (1 / 2), 0, 0], [0, 0, 1]],
           spacing = [3, 2, 1], nvoxels = 24 \<rparr>"
  by (simp add: DataGrid_def is_4x4_def upt_rec col_def linalg_inv_3x3 det_3x3
        linalg_norm_def Let_def)

lemma get_standard_flipped:
  "get_standard \<lparr> shape = [2, 3, 4],
           affine = [[0, - 2, 0, 5], [3, 0, 0, 0], [0, 0, 1, 0], [0, 0, 0, 1]],
           origin = [5, 0, 0], transform = [[0, - 2, 0], [3, 0, 0], [0, 0, 1]],
           inv_transform = [[0, 1 / 3, 0], [- (1 / 2), 0, 0], [0, 0, 1]],
           spacing = [3, 2, 1], nvoxels = 24 \<rparr>
   = Inr \<lparr> shape = [3, 2, 4],
           affine = [[2, 0, 0, 1], [0, 3, 0, 0], [0, 0, 1, 0], [0, 0, 0, 1]],
           origin = [1, 0, 0], transform = [[2, 0, 0], [0, 3, 0], [0, 0, 1]],
           inv_transform = [[1 / 2, 0, 0], [0, 1 / 3, 0], [0, 0, 1]],
           spacing = [2, 3, 1], nvoxels = 24 \<rparr>"
  by (simp add: get_standard_def simplify_transforms_def scan_dim_def np_col_def np_argmax_def
        col_def argmax_def move_cols_def flip_cols_def adjust_origin_def adjust_step_def
        set_col_def upt_rec Let_def
        DataGrid_def is_4x4_def linalg_inv_3x3 det_3x3 linalg_norm_def)

theorem get_standard_spacing_witness:
  "\<exists>g g'. DataGrid [2, 3, 4] [[0, - 2, 0, 5], [3, 0, 0, 0], [0, 0, 1, 0], [0, 0, 0, 1]] = Inr g
      \<and> get_standard g = Inr g' \<and> spacing g = [3, 2, 1] \<and> spacing g' = [2, 3, 1]
      \<and> mset (spacing g') = mset (spacing g)"
  using get_standard_spacing[OF DataGrid_flipped]
  by (simp add: DataGrid_flipped get_standard_flipped)

section \<open>regions\<close>

lemma np_unique_props:
  "set (np_unique xs) = set xs" "sorted_wrt (<) (np_unique xs)"
proof -
  show "set (np_unique xs) = set xs" by (simp add: np_unique_def)
  have "sorted (sort (remdups xs))" by simp
  moreover have "distinct (sort (remdups xs))" by simp
  ultimately show "sorted_wrt (<) (np_unique xs)"
    by (simp add: np_unique_def strict_sorted_iff)
qed

text \<open>
  A converted value is strictly positive exactly for a raw value from 1 up to, and not
  including, \<open>2^63\<close>, and it is then the integer part of the raw value.
\<close>

lemma astype_int_positive:
  "0 < astype_int v \<longleftrightarrow> 1 \<le> v \<and> v < 2 ^ 63"
proof (cases "0 \<le> v")
  case True
  have "\<lfloor>v\<rfloor> < 2 ^ 63 \<longleftrightarrow> v < 2 ^ 63"
    using floor_less_iff[of v "2 ^ 63"] by simp
  moreover have "0 < \<lfloor>v\<rfloor> \<longleftrightarrow> 1 \<le> v" by (rule zero_less_floor)
  moreover have "0 \<le> \<lfloor>v\<rfloor>" using True by simp
  ultimately show ?thesis
    using True by (auto simp: astype_int_def trunc_toward_zero_def Let_def)
next
  case False
  then have "\<lceil>v\<rceil> \<le> 0" by (simp add: ceiling_le_zero)
  with False show ?thesis
    by (auto simp: astype_int_def trunc_toward_zero_def Let_def)
qed

lemma astype_int_floor: "0 < astype_int v \<Longrightarrow> astype_int v = \<lfloor>v\<rfloor>"
  by (auto simp: astype_int_def trunc_toward_zero_def Let_def split: if_splits)

lemma set_find_regions:
  "set (find_regions a) = {\<lfloor>v\<rfloor> |v. v \<in> set (arr_data a) \<and> 1 \<le> v \<and> v < 2 ^ 63}"
proof -
  have "set (find_regions a) = {astype_int v |v. v \<in> set (arr_data a) \<and> 0 < astype_int v}"
    by (auto simp: find_regions_def np_unique_props(1))
  also have "\<dots> = {\<lfloor>v\<rfloor> |v. v \<in> set (arr_data a) \<and> 1 \<le> v \<and> v < 2 ^ 63}"
    using astype_int_floor by (auto simp: astype_int_positive) metis
  finally show ?thesis .
qed

text \<open>
  Claim C10, as amended. For ROI data whose region cache is empty, as the constructor leaves
  it, or holds the regions of the present raw array, as \<open>regions()\<close> leaves it, \<open>regions()\<close>
  returns exactly the integer parts of the raw values from 1 up to, and not including,
  \<open>2^63\<close>, each once and in strictly ascending order: a fractional value contributes its
  truncated label, and zero, negative values and values too large for the 64-bit integer
  never appear. The raw array is unchanged and a second call returns the same list.
\<close>

theorem regions_positive_truncated_sorted:
  assumes "roi d"
    and "regions_cache d = None \<or> regions_cache d = Some (find_regions (rawdata d))"
  shows "\<exists>r d'. regions d = Inr (r, d')
           \<and> set r = {\<lfloor>v\<rfloor> |v. v \<in> set (arr_data (rawdata d)) \<and> 1 \<le> v \<and> v < 2 ^ 63}
           \<and> sorted_wrt (<) r
           \<and> rawdata d' = rawdata d \<and> regions d' = Inr (r, d')"
proof -
  define r where "r = find_regions (rawdata d)"
  have 2: "set r = {\<lfloor>v\<rfloor> |v. v \<in> set (arr_data (rawdata d)) \<and> 1 \<le> v \<and> v < 2 ^ 63}"
    unfolding r_def by (rule set_find_regions)
  have 3: "sorted_wrt (<) r"
    unfolding r_def find_regions_def by (rule sorted_wrt_filter[OF np_unique_props(2)])
  have 4: "regions (d\<lparr>regions_cache := Some r\<rparr>) = Inr (r, d\<lparr>regions_cache := Some r\<rparr>)"
    using assms(1) by (simp add: regions_def)
  from assms(2) show ?thesis
  proof
    assume "regions_cache d = None"
    then have "regions d = Inr (r, d\<lparr>regions_cache := Some r\<rparr>)"
      using assms(1) by (simp add: regions_def r_def Let_def)
    with 2 3 4 show ?thesis by simp
  next
    assume c: "regions_cache d = Some (find_regions (rawdata d))"
    then have "regions d = Inr (r, d)"
      using assms(1) by (simp add: regions_def r_def)
    with 2 3 show ?thesis by simp
  qed
qed

lemma find_regions_example:
  "find_regions \<lparr> arr_shape = [1, 1, 5], arr_data = [0, 27 / 10, 1, - 3, 2] \<rparr> = [1, 2]"
  by (simp add: find_regions_def astype_int_def trunc_toward_zero_def np_unique_def Let_def)

theorem regions_positive_truncated_sorted_witness:
  "roi
     \<lparr> name = ''r'', grid = (), nvols = 1, ndim = 3, raw_2dt = False,
         regions_cache = None, roi = True,
         rawdata = \<lparr> arr_shape = [1, 1, 5], arr_data = [0, 27 / 10, 1, - 3, 2] \<rparr> \<rparr>
   \<and> regions
     \<lparr> name = ''r'', grid = (), nvols = 1, ndim = 3, raw_2dt = False,
         regions_cache = None, roi = True,
         rawdata = \<lparr> arr_shape = [1, 1, 5], arr_data = [0, 27 / 10, 1, - 3, 2] \<rparr> \<rparr> = Inr ([1, 2],
     \<lparr> name = ''r'', grid = (), nvols = 1, ndim = 3, raw_2dt = False,
         regions_cache = Some [1, 2], roi = True,
         rawdata = \<lparr> arr_shape = [1, 1, 5], arr_data = [0, 27 / 10, 1, - 3, 2] \<rparr> \<rparr>)
   \<and> regions
     \<lparr> name = ''r'', grid = (), nvols = 1, ndim = 3, raw_2dt = False,
         regions_cache = Some [1, 2], roi = True,
         rawdata = \<lparr> arr_shape = [1, 1, 5], arr_data = [0, 27 / 10, 1, - 3, 2] \<rparr> \<rparr> = Inr ([1, 2],
     \<lparr> name = ''r'', grid = (), nvols = 1, ndim = 3, raw_2dt = False,
         regions_cache = Some [1, 2], roi = True,
         rawdata = \<lparr> arr_shape = [1, 1, 5], arr_data = [0, 27 / 10, 1, - 3, 2] \<rparr> \<rparr>)"
  using regions_positive_truncated_sorted[of "
     \<lparr> name = ''r'', grid = (), nvols = 1, ndim = 3, raw_2dt = False,
         regions_cache = None, roi = True,
         rawdata = \<lparr> arr_shape = [1, 1, 5], arr_data = [0, 27 / 10, 1, - 3, 2] \<rparr> \<rparr>"]
  using find_regions_example
  by (simp add: regions_def Let_def)

text \<open>
  The claim as stated fails for a value too large for the platform integer: the raw value
  \<open>10^20\<close> truncates to the strictly positive integer \<open>10^20\<close>, which \<open>regions()\<close> does
  not return.
\<close>

theorem regions_large_value_counterexample:
  "regions
     \<lparr> name = ''r'', grid = (), nvols = 1, ndim = 3, raw_2dt = False,
         regions_cache = None, roi = True,
         rawdata = \<lparr> arr_shape = [1, 1, 2], arr_data = [1, 10 ^ 20] \<rparr> \<rparr> = Inr ([1],
     \<lparr> name = ''r'', grid = (), nvols = 1, ndim = 3, raw_2dt = False,
         regions_cache = Some [1], roi = True,
         rawdata = \<lparr> arr_shape = [1, 1, 2], arr_data = [1, 10 ^ 20] \<rparr> \<rparr>)
   \<and> 0 < trunc_toward_zero (10 ^ 20)
   \<and> trunc_toward_zero (10 ^ 20) \<notin> set [1]"
proof -
  have t: "trunc_toward_zero (10 ^ 20) = 10 ^ 20"
    using floor_of_int[of "10 ^ 20", where ?'a = real]
    by (simp add: trunc_toward_zero_def)
  have f: "find_regions \<lparr> arr_shape = [1, 1, 2], arr_data = [1, 10 ^ 20] \<rparr> = [1]"
    using t by (simp add: find_regions_def astype_int_def np_unique_def Let_def)
               (simp add: trunc_toward_zero_def)
  have p: "0 < trunc_toward_zero (10 ^ 20) \<and> trunc_toward_zero (10 ^ 20) \<notin> set [1]"
    using t by simp
  from f p show ?thesis
    by (simp add: regions_def Let_def)
qed

section \<open>Resampling onto the own grid\<close>

lemma div4:
  fixes D :: real
  assumes "D \<noteq> 0" and "p * A + (q * B + (r * C + s * E)) = D * x"
  shows "p / D * A + (q / D * B + (r / D * C + s / D * E)) = x"
proof -
  have "p / D * A + (q / D * B + (r / D * C + s / D * E)) = (p * A + (q * B + (r * C + s * E))) / D"
    by (simp add: add_divide_distrib)
  with assms show ?thesis by simp
qed

lemma cofactor_expand:
  fixes a0 :: real
  assumes "i < 4" "k < 4"
    and A: "A = [[a0, a1, a2, a3], [b0, b1, b2, b3], [c0, c1, c2, c3], [d0, d1, d2, d3]]"
  shows "cofactor A 0 i * (A ! 0 ! k) + (cofactor A 1 i * (A ! 1 ! k)
           + (cofactor A 2 i * (A ! 2 ! k) + cofactor A 3 i * (A ! 3 ! k)))
         = (if i = k then det A else 0)"
proof -
  from assms have "i = 0 \<or> i = 1 \<or> i = 2 \<or> i = 3" "k = 0 \<or> k = 1 \<or> k = 2 \<or> k = 3" by arith+
  then show ?thesis
    by (elim disjE; simp add: A cofactor_def det_def minor_def del_at_def upt_rec algebra_simps)
qed


lemma inv_entry_4x4:
  assumes "is_4x4 A" "det A \<noteq> 0" "i < 4" "k < 4"
  shows "sum_list (map2 (*) (map (\<lambda>j. cofactor A j i / det A) [0..<4]) (col A k))
           = (if i = k then 1 else 0)"
proof -
  from assms(1) obtain a0 a1 a2 a3 b0 b1 b2 b3 c0 c1 c2 c3 d0 d1 d2 d3 where
    A: "A = [[a0, a1, a2, a3], [b0, b1, b2, b3], [c0, c1, c2, c3], [d0, d1, d2, d3]]"
    by (rule is_4x4_explicit)
  have "cofactor A 0 i * (A ! 0 ! k) + (cofactor A 1 i * (A ! 1 ! k)
           + (cofactor A 2 i * (A ! 2 ! k) + cofactor A 3 i * (A ! 3 ! k)))
         = det A * (if i = k then 1 else 0)"
    using cofactor_expand[OF assms(3,4) A] by simp
  from div4[OF assms(2) this]
  have "cofactor A 0 i / det A * (A ! 0 ! k) + (cofactor A 1 i / det A * (A ! 1 ! k)
           + (cofactor A 2 i / det A * (A ! 2 ! k) + cofactor A 3 i / det A * (A ! 3 ! k)))
         = (if i = k then 1 else 0)" .
  moreover have "col A k = [A ! 0 ! k, A ! 1 ! k, A ! 2 ! k, A ! 3 ! k]"
    by (simp add: A col_def)
  moreover have "[0..<4] = [0, 1, 2, 3]" by (simp add: upt_rec)
  ultimately show ?thesis by simp
qed

lemma linalg_inv_left_4x4:
  assumes "is_4x4 A" "linalg_inv A = Inr B"
  shows "matmul B A = Inr (identity 4)"
proof -
  from assms have D: "det A \<noteq> 0"
    and B: "B = map (\<lambda>i. map (\<lambda>j. cofactor A j i / det A) [0..<4]) [0..<4]"
    by (auto simp: linalg_inv_def is_4x4_def split: if_splits)
  from assms(1) have len: "length A = 4" "length (hd A) = 4"
    by (auto simp: is_4x4_def elim: list4_explicit)
  have "matmul B A = Inr (map (\<lambda>i. map (\<lambda>k. sum_list (map2 (*)
            (map (\<lambda>j. cofactor A j i / det A) [0..<4]) (col A k))) [0..<4]) [0..<4])"
    unfolding B matmul_def by (simp add: len list_all_iff o_def)
  also have "\<dots> = Inr (identity 4)"
    unfolding identity_def
    using inv_entry_4x4[OF assms(1) D] by simp
  finally show ?thesis .
qed

text \<open>
  So the exact product of the exact inverse of a 4x4 matrix with the matrix is the identity,
  and an affine with the last row \<open>[0, 0, 0, 1]\<close> on a grid built by \<open>DataGrid\<close> has an
  inverse.
\<close>

lemma affine_invertible:
  assumes g: "DataGrid shp aff = Inr g" and last: "aff ! 3 = [0, 0, 0, 1]"
  shows "\<exists>ainv. linalg_inv aff = Inr ainv"
proof -
  note f = DataGrid_facts[OF g]
  from f(2) obtain a0 a1 a2 a3 b0 b1 b2 b3 c0 c1 c2 c3 d0 d1 d2 d3 where
    A: "aff = [[a0, a1, a2, a3], [b0, b1, b2, b3], [c0, c1, c2, c3], [d0, d1, d2, d3]]"
    by (rule is_4x4_explicit)
  from last have "det aff = det (map (take 3) (take 3 aff))"
    by (simp add: A det_def minor_def del_at_def upt_rec)
  with f(3) have "det aff \<noteq> 0" by simp
  moreover have "is_square aff" by (simp add: A is_square_def)
  ultimately show ?thesis by (simp add: linalg_inv_def)
qed

text \<open>
  A 4x4 matrix that passes \<open>is_identity\<close> has, in each of its first three columns, the
  largest absolute entry on the diagonal, and that entry is positive: the first loop of
  \<open>simplify_transforms\<close> finds the identity order and no flip, and nothing is moved.
\<close>

lemma argmax4_at:
  "b < a \<Longrightarrow> c < a \<Longrightarrow> d < a \<Longrightarrow> argmax [a, b, c, d] = 0"
  "a < b \<Longrightarrow> c < b \<Longrightarrow> d < b \<Longrightarrow> argmax [a, b, c, d] = 1"
  "a < c \<Longrightarrow> b < c \<Longrightarrow> d < c \<Longrightarrow> argmax [a, b, c, d] = 2"
  by (auto simp: argmax_def)

lemma near_identity_bounds:
  fixes x y :: real
  assumes "\<bar>x - 1\<bar> < 1 / 1000" "\<bar>y\<bar> < 1 / 1000"
  shows "\<bar>y\<bar> < \<bar>x\<bar>" "\<not> x < 0"
  using assms by linarith+

lemma simplify_near_identity:
  assumes T: "is_4x4 T" and idt: "is_identity T = Inr True" and sh: "length (shape g) = 3"
  shows "simplify_transforms g T = Inr ([0..<3], [], T)"
proof -
  from T obtain a0 a1 a2 a3 b0 b1 b2 b3 c0 c1 c2 c3 d0 d1 d2 d3 where
    TT: "T = [[a0, a1, a2, a3], [b0, b1, b2, b3], [c0, c1, c2, c3], [d0, d1, d2, d3]]"
    by (rule is_4x4_explicit)
  from idt have b: "\<bar>a0 - 1\<bar> < 1 / 1000" "\<bar>b0\<bar> < 1 / 1000" "\<bar>c0\<bar> < 1 / 1000" "\<bar>d0\<bar> < 1 / 1000"
    "\<bar>a1\<bar> < 1 / 1000" "\<bar>b1 - 1\<bar> < 1 / 1000" "\<bar>c1\<bar> < 1 / 1000" "\<bar>d1\<bar> < 1 / 1000"
    "\<bar>a2\<bar> < 1 / 1000" "\<bar>b2\<bar> < 1 / 1000" "\<bar>c2 - 1\<bar> < 1 / 1000" "\<bar>d2\<bar> < 1 / 1000"
    by (simp_all add: TT is_identity_def ncols_def upt_rec EQ_TOL_def)
  have am: "argmax [\<bar>a0\<bar>, \<bar>b0\<bar>, \<bar>c0\<bar>, \<bar>d0\<bar>] = 0" "argmax [\<bar>a1\<bar>, \<bar>b1\<bar>, \<bar>c1\<bar>, \<bar>d1\<bar>] = 1"
    "argmax [\<bar>a2\<bar>, \<bar>b2\<bar>, \<bar>c2\<bar>, \<bar>d2\<bar>] = 2"
    using argmax4_at(1)[of "\<bar>b0\<bar>" "\<bar>a0\<bar>" "\<bar>c0\<bar>" "\<bar>d0\<bar>"]
      argmax4_at(2)[of "\<bar>a1\<bar>" "\<bar>b1\<bar>" "\<bar>c1\<bar>" "\<bar>d1\<bar>"]
      argmax4_at(3)[of "\<bar>a2\<bar>" "\<bar>c2\<bar>" "\<bar>b2\<bar>" "\<bar>d2\<bar>"]
      near_identity_bounds(1)[OF b(1) b(2)] near_identity_bounds(1)[OF b(1) b(3)]
      near_identity_bounds(1)[OF b(1) b(4)] near_identity_bounds(1)[OF b(6) b(5)]
      near_identity_bounds(1)[OF b(6) b(7)] near_identity_bounds(1)[OF b(6) b(8)]
      near_identity_bounds(1)[OF b(11) b(9)] near_identity_bounds(1)[OF b(11) b(10)]
      near_identity_bounds(1)[OF b(11) b(12)]
    by blast+
  have pos: "\<not> a0 < 0" "\<not> b1 < 0" "\<not> c2 < 0"
    using near_identity_bounds(2)[OF b(1) b(2)] near_identity_bounds(2)[OF b(6) b(5)]
      near_identity_bounds(2)[OF b(11) b(9)]
    by blast+
  have up: "[0..<3] = [0, 1, 2::nat]" by (simp add: upt_rec)
  have "fold_err (scan_dim T) [0, 1, 2] ([], []) = Inr ([0, 1, 2], [])"
    using am pos by (simp add: TT scan_dim_def np_col_def np_argmax_def col_def)
  then have scan: "fold_err (scan_dim T) [0..<3] ([], []) = Inr ([0..<3], [])"
    by (simp only: up)
  have "move_cols T [0, 1, 2] T = T"
    by (simp add: TT move_cols_def set_col_def col_def upt_rec)
  then have mv: "move_cols T [0..<3] T = T"
    by (simp only: up)
  have so: "sort [0..<3] = [0..<(3::nat)]" by (simp add: upt_rec)
  show ?thesis
    using sh
    by (simp add: simplify_transforms_def scan so mv flip_cols_def adjust_origin_def
          del: upt_Suc)
qed

text \<open>
  Claim C3, as amended. The data is on a grid built by \<open>DataGrid\<close>, with a 3D array when it
  is an ROI. Whatever the library computes as the inverse of the affine and as its product
  with the affine: when that product is a 4x4 matrix that passes \<open>is_identity\<close>, every entry
  within \<open>EQ_TOL\<close> of the identity's, resampling onto the data's own grid returns new data
  with the very same array, for every interpolation function and order, so the
  interpolation is never called. The new data is on the same grid, keeps the ROI flag and
  has the name suffixed with \<open>_resampled\<close>.
\<close>

theorem resample_same_grid:
  assumes g: "DataGrid shp aff = Inr (grid d)"
    and inv: "np_inv aff = Inr ainv"
    and dot: "np_mul ainv aff = Inr T"
    and T: "is_4x4 T" "is_identity T = Inr True"
    and r: "roi d \<longrightarrow> length (arr_shape (rawdata d)) = 3"
  shows "\<exists>d'. resample_with np_inv np_mul affine_transform d (grid d) order = Inr d'
           \<and> rawdata d' = rawdata d \<and> grid d' = grid d \<and> roi d' = roi d
           \<and> name d' = name d @ ''_resampled''"
proof -
  note f = DataGrid_facts[OF g]
  have st: "simplify_transforms (grid d) T = Inr ([0..<3], [], T)"
    by (rule simplify_near_identity[OF T]) (simp add: f)
  have "resample_with np_inv np_mul affine_transform d (grid d) order
          = NumpyData (rawdata d) (grid d) (name d @ ''_resampled'') (roi d)"
    by (simp add: resample_with_def f(6) inv dot st T(2))
  with r show ?thesis
    by (auto simp: NumpyData_def QpData_def set_roi_def)
qed

text \<open>
  With the exact inverse and product the hypotheses hold on every grid whose 4x4 affine is
  invertible; the witness is the unit grid.
\<close>

lemma is_identity_identity: "is_identity (identity 4) = Inr True"
  by (simp add: is_identity_def identity_def ncols_def upt_rec EQ_TOL_def)

theorem resample_same_grid_witness:
  "\<exists>g d'. DataGrid [1, 1, 1] (identity 4) = Inr g
     \<and> resample (\<lambda>a m off shp ord. Inl ValueError)
          \<lparr> name = ''a'', grid = g, nvols = 1, ndim = 3, raw_2dt = False,
            regions_cache = None, roi = True,
            rawdata = \<lparr> arr_shape = [1, 1, 1], arr_data = [7] \<rparr> \<rparr> g 0 = Inr d'
     \<and> rawdata d' = \<lparr> arr_shape = [1, 1, 1], arr_data = [7] \<rparr>"
proof -
  obtain g where g: "DataGrid [1, 1, 1] (identity 4) = Inr g"
    using DataGrid_unit by blast
  have l: "identity 4 ! 3 = [0, 0, 0, 1]" by (simp add: identity_def upt_rec)
  from affine_invertible[OF g l] obtain ainv where i: "linalg_inv (identity 4) = Inr ainv" ..
  have i4: "is_4x4 (identity 4)" by (simp add: is_4x4_def identity_def upt_rec)
  have m: "matmul ainv (identity 4) = Inr (identity 4)"
    by (rule linalg_inv_left_4x4[OF i4 i])
  let ?d = "\<lparr> name = ''a'', grid = g, nvols = 1, ndim = 3, raw_2dt = False,
            regions_cache = None, roi = True,
            rawdata = \<lparr> arr_shape = [1, 1, 1], arr_data = [7] \<rparr> \<rparr>"
  have "DataGrid [1, 1, 1] (identity 4) = Inr (grid ?d)" using g by simp
  from resample_same_grid[where d = "?d" and np_inv = linalg_inv and np_mul = matmul
         and affine_transform = "\<lambda>a m off shp ord. Inl ValueError" and order = 0,
         OF this i m i4 is_identity_identity] g
  show ?thesis by (auto simp: resample_def)
qed

text \<open>
  The claim as stated, for every data object, fails on a grid that \<open>DataGrid\<close> accepts: the
  transform of this affine is the identity, but its last row is zero, the 4x4 affine has no
  inverse, and \<open>resample\<close> onto the data's own grid raises LinAlgError.
\<close>

lemma DataGrid_zero_row:
  "DataGrid [1, 1, 1] [[1, 0, 0, 0], [0, 1, 0, 0], [0, 0, 1, 0], [0, 0, 0, 0]] = Inr
       \<lparr> shape = [1, 1, 1],
         affine = [[1, 0, 0, 0], [0, 1, 0, 0], [0, 0, 1, 0], [0, 0, 0, 0]],
         origin = [0, 0, 0], transform = [[1, 0, 0], [0, 1, 0], [0, 0, 1]],
         inv_transform = [[1, 0, 0], [0, 1, 0], [0, 0, 1]],
         spacing = [1, 1, 1], nvoxels = 1 \<rparr>"
  by (simp add: DataGrid_def is_4x4_def upt_rec col_def linalg_inv_3x3 det_3x3
        linalg_norm_def Let_def)

theorem resample_same_grid_counterexample:
  "DataGrid [1, 1, 1] [[1, 0, 0, 0], [0, 1, 0, 0], [0, 0, 1, 0], [0, 0, 0, 0]] = Inr
       \<lparr> shape = [1, 1, 1],
         affine = [[1, 0, 0, 0], [0, 1, 0, 0], [0, 0, 1, 0], [0, 0, 0, 0]],
         origin = [0, 0, 0], transform = [[1, 0, 0], [0, 1, 0], [0, 0, 1]],
         inv_transform = [[1, 0, 0], [0, 1, 0], [0, 0, 1]],
         spacing = [1, 1, 1], nvoxels = 1 \<rparr>
   \<and> resample (\<lambda>a m off shp ord. Inl ValueError)
        \<lparr> name = ''a'', grid =
       \<lparr> shape = [1, 1, 1],
         affine = [[1, 0, 0, 0], [0, 1, 0, 0], [0, 0, 1, 0], [0, 0, 0, 0]],
         origin = [0, 0, 0], transform = [[1, 0, 0], [0, 1, 0], [0, 0, 1]],
         inv_transform = [[1, 0, 0], [0, 1, 0], [0, 0, 1]],
         spacing = [1, 1, 1], nvoxels = 1 \<rparr>, nvols = 1, ndim = 3, raw_2dt = False,
          regions_cache = None, roi = False,
          rawdata = \<lparr> arr_shape = [1, 1, 1], arr_data = [7] \<rparr> \<rparr>

       \<lparr> shape = [1, 1, 1],
         affine = [[1, 0, 0, 0], [0, 1, 0, 0], [0, 0, 1, 0], [0, 0, 0, 0]],
         origin = [0, 0, 0], transform = [[1, 0, 0], [0, 1, 0], [0, 0, 1]],
         inv_transform = [[1, 0, 0], [0, 1, 0], [0, 0, 1]],
         spacing = [1, 1, 1], nvoxels = 1 \<rparr> 0
     = Inl LinAlgError"
proof -
  have "linalg_inv [[1, 0, 0, 0], [0, 1, 0, 0], [0, 0, 1, 0], [0, 0, 0, 0]] = Inl LinAlgError"
    by (simp add: linalg_inv_def is_square_def det_def minor_def del_at_def upt_rec)
  then show ?thesis
    by (simp add: DataGrid_zero_row resample_def resample_with_def)
qed

section \<open>The ROI test after interpolation\<close>

lemma roi_check_fraction:
  "roi_check \<lparr> arr_shape = [1, 1, 4], arr_data = [0, 1 / 2, 1, 0] \<rparr>
     = Inr \<lparr> arr_shape = [1, 1, 4], arr_data = [0, 0, 1, 0] \<rparr>"
  by (simp add: roi_check_def astype_int32_def trunc_toward_zero_def frac_def Let_def)

lemma inv_id4: "linalg_inv [[1, 0, 0, 0], [0, 1, 0, 0], [0, 0, 1 / 2, 0], [0, 0, 0, 1]]
   = Inr [[1, 0, 0, 0], [0, 1, 0, 0], [0, 0, 2, 0], [0, 0, 0, 1]]"
  by (simp add: linalg_inv_def is_square_def cofactor_def det_def minor_def del_at_def upt_rec)

lemma inv_id4': "linalg_inv [[1, 0, 0, 0], [0, 1, 0, 0], [0, 0, 2, 0], [0, 0, 0, 1]]
   = Inr [[1, 0, 0, 0], [0, 1, 0, 0], [0, 0, 1 / 2, 0], [0, 0, 0, 1]]"
  by (simp add: linalg_inv_def is_square_def cofactor_def det_def minor_def del_at_def upt_rec)

lemma DataGrid_half:
  "DataGrid [1, 1, 4] [[1, 0, 0, 0], [0, 1, 0, 0], [0, 0, 1 / 2, 0], [0, 0, 0, 1]] =
     Inr \<lparr> shape = [1, 1, 4], affine = [[1, 0, 0, 0], [0, 1, 0, 0], [0, 0, 1 / 2, 0], [0, 0, 0, 1]],
           origin = [0, 0, 0], transform = [[1, 0, 0], [0, 1, 0], [0, 0, 1 / 2]],
           inv_transform = [[1, 0, 0], [0, 1, 0], [0, 0, 2]],
           spacing = [1, 1, 1 / 2], nvoxels = 4 \<rparr>"
  by (simp add: DataGrid_def is_4x4_def upt_rec col_def linalg_inv_3x3 det_3x3
        linalg_norm_def Let_def real_sqrt_divide)

lemma DataGrid_112:
  "DataGrid [1, 1, 2] (identity 4) =
     Inr \<lparr> shape = [1, 1, 2], affine = [[1, 0, 0, 0], [0, 1, 0, 0], [0, 0, 1, 0], [0, 0, 0, 1]],
           origin = [0, 0, 0], transform = [[1, 0, 0], [0, 1, 0], [0, 0, 1]],
           inv_transform = [[1, 0, 0], [0, 1, 0], [0, 0, 1]],
           spacing = [1, 1, 1], nvoxels = 2 \<rparr>"
  by (simp add: DataGrid_def identity_def is_4x4_def upt_rec col_def linalg_inv_3x3 det_3x3
        linalg_norm_def Let_def)


lemma matmul_double:
  "matmul [[1, 0, 0, 0], [0, 1, 0, 0], [0, 0, 2, 0], [0, 0, 0, 1]]
          [[1, 0, 0, 0], [0, 1, 0, 0], [0, 0, 1, 0], [0, 0, 0, 1]]
     = Inr [[1, 0, 0, 0], [0, 1, 0, 0], [0, 0, 2, 0], [0, 0, 0, 1]]"
  by (simp add: matmul_def col_def upt_rec)

lemma simplify_double:
  "length (shape g) = 3 \<Longrightarrow>
   simplify_transforms g [[1, 0, 0, 0], [0, 1, 0, 0], [0, 0, 2, 0], [0, 0, 0, 1]]
     = Inr ([0, 1, 2], [], [[1, 0, 0, 0], [0, 1, 0, 0], [0, 0, 2, 0], [0, 0, 0, 1]])"
  by (simp add: simplify_transforms_def scan_dim_def np_col_def np_argmax_def col_def
        argmax_def move_cols_def flip_cols_def adjust_origin_def set_col_def upt_rec)

lemma is_identity_double:
  "is_identity [[1, 0, 0, 0], [0, 1, 0, 0], [0, 0, 2, 0], [0, 0, 0, 1]] = Inr False"
  by (simp add: is_identity_def ncols_def upt_rec EQ_TOL_def)

lemma roi_check_integers:
  assumes "arr_data a \<noteq> []"
    and "\<forall>v\<in>set (arr_data a). frac v = 0 \<and> 0 \<le> v \<and> v < 2 ^ 32"
  shows "\<exists>r. roi_check a = Inr r"
proof -
  from assms(1) have ne: "set (arr_data a) \<noteq> {}" by simp
  have "\<not> Min (set (arr_data a)) < 0"
    using assms(2) ne by (subst Min_less_iff) (auto simp: not_less)
  moreover have "\<not> 2 ^ 32 < Max (set (arr_data a))"
    using assms(2) ne by (subst Max_gr_iff) (auto simp: not_less less_imp_le)
  moreover have "list_ex (\<lambda>v. frac v = 0) (arr_data a)"
    using assms by (cases "arr_data a") (auto simp: list_ex_iff)
  ultimately show ?thesis using assms(1) by (simp add: roi_check_def)
qed

text \<open>
  Claim C2. An ROI of two voxels with the labels 0 and 1 is resampled with order 1 onto a
  grid of half the spacing along the third axis, so the general interpolation is used; the
  interpolation function here returns the values 0, 1/2, 1, 0, as linear interpolation does.
  The result holds the fractional value 1/2, yet \<open>resample\<close> raises nothing and returns the
  labels 0, 0, 1, 0: the test \<open>np.equal(np.mod(data, 1), 0).any()\<close> accepts an array as soon
  as one of its values is an integer. The other half of the claim holds: an array of integers
  in the range is accepted (lemma \<open>roi_check_integers\<close>).
\<close>

theorem resample_roi_fraction_not_rejected:
  "\<exists>g1 g2 d'.
     DataGrid [1, 1, 2] (identity 4) = Inr g1
   \<and> DataGrid [1, 1, 4] [[1, 0, 0, 0], [0, 1, 0, 0], [0, 0, 1 / 2, 0], [0, 0, 0, 1]] = Inr g2
   \<and> resample (\<lambda>a m off shp ord. Inr \<lparr> arr_shape = [1, 1, 4], arr_data = [0, 1 / 2, 1, 0] \<rparr>)
        \<lparr> name = ''roi'', grid = g1, nvols = 1, ndim = 3, raw_2dt = False,
          regions_cache = None, roi = True,
          rawdata = \<lparr> arr_shape = [1, 1, 2], arr_data = [0, 1] \<rparr> \<rparr> g2 1 = Inr d'
   \<and> rawdata d' = \<lparr> arr_shape = [1, 1, 4], arr_data = [0, 0, 1, 0] \<rparr>"
proof -
  define g1 :: datagrid where "g1 =
     \<lparr> shape = [1, 1, 2], affine = [[1, 0, 0, 0], [0, 1, 0, 0], [0, 0, 1, 0], [0, 0, 0, 1]],
       origin = [0, 0, 0], transform = [[1, 0, 0], [0, 1, 0], [0, 0, 1]],
       inv_transform = [[1, 0, 0], [0, 1, 0], [0, 0, 1]],
       spacing = [1, 1, 1], nvoxels = 2 \<rparr>"
  define g2 :: datagrid where "g2 =
     \<lparr> shape = [1, 1, 4], affine = [[1, 0, 0, 0], [0, 1, 0, 0], [0, 0, 1 / 2, 0], [0, 0, 0, 1]],
       origin = [0, 0, 0], transform = [[1, 0, 0], [0, 1, 0], [0, 0, 1 / 2]],
       inv_transform = [[1, 0, 0], [0, 1, 0], [0, 0, 2]],
       spacing = [1, 1, 1 / 2], nvoxels = 4 \<rparr>"
  define d where "d = \<lparr> name = ''roi'', grid = g1, nvols = 1, ndim = 3, raw_2dt = False,
          regions_cache = None, roi = True,
          rawdata = \<lparr> arr_shape = [1, 1, 2], arr_data = [0, 1] \<rparr> \<rparr>"
  have a: "affine g2 = [[1, 0, 0, 0], [0, 1, 0, 0], [0, 0, 1 / 2, 0], [0, 0, 0, 1]]"
    "affine g1 = [[1, 0, 0, 0], [0, 1, 0, 0], [0, 0, 1, 0], [0, 0, 0, 1]]"
    "length (shape g1) = 3" "shape g2 = [1, 1, 4]"
    by (simp_all add: g1_def g2_def)
  have d: "roi d" "rawdata d = \<lparr> arr_shape = [1, 1, 2], arr_data = [0, 1] \<rparr>" "grid d = g1"
    "name d = ''roi''"
    by (simp_all add: d_def)
  have ra: "resample_affine linalg_inv
       (\<lambda>a m off shp ord. Inr \<lparr> arr_shape = [1, 1, 4], arr_data = [0, 1 / 2, 1, 0] \<rparr>)
       d g2 1 \<lparr> arr_shape = [1, 1, 2], arr_data = [0, 1] \<rparr>
       [[1, 0, 0, 0], [0, 1, 0, 0], [0, 0, 2, 0], [0, 0, 0, 1]]
         = Inr \<lparr> arr_shape = [1, 1, 4], arr_data = [0, 0, 1, 0] \<rparr>"
    using roi_check_fraction
    by (simp add: resample_affine_def inv_id4' np_col_def col_def is_diagonal_def ncols_def
          upt_rec EQ_TOL_def d)
  have "\<exists>d'. resample
       (\<lambda>a m off shp ord. Inr \<lparr> arr_shape = [1, 1, 4], arr_data = [0, 1 / 2, 1, 0] \<rparr>) d g2 1
         = Inr d' \<and> rawdata d' = \<lparr> arr_shape = [1, 1, 4], arr_data = [0, 0, 1, 0] \<rparr>"
    using ra
    by (simp add: resample_def resample_with_def a d inv_id4 matmul_double
          simplify_double[OF a(3)] is_identity_double upt_rec NumpyData_def QpData_def
          set_roi_def)
  moreover have "DataGrid [1, 1, 2] (identity 4) = Inr g1"
    unfolding g1_def by (rule DataGrid_112)
  moreover have "DataGrid [1, 1, 4] [[1, 0, 0, 0], [0, 1, 0, 0], [0, 0, 1 / 2, 0], [0, 0, 0, 1]]
                   = Inr g2"
    unfolding g2_def by (rule DataGrid_half)
  ultimately show ?thesis unfolding d_def by blast
qed

section \<open>set_2dt and the grid object\<close>

lemma DataGrid_identity:
  "DataGrid [a, b, c] (identity 4) =
     Inr \<lparr> shape = [a, b, c], affine = [[1, 0, 0, 0], [0, 1, 0, 0], [0, 0, 1, 0], [0, 0, 0, 1]],
           origin = [0, 0, 0], transform = [[1, 0, 0], [0, 1, 0], [0, 0, 1]],
           inv_transform = [[1, 0, 0], [0, 1, 0], [0, 0, 1]],
           spacing = [1, 1, 1], nvoxels = a * (b * c) \<rparr>"
  by (simp add: DataGrid_def identity_def is_4x4_def upt_rec col_def linalg_inv_3x3 det_3x3
        linalg_norm_def Let_def)

text \<open>
  Claim C4. The store holds one grid of shape \<open>[2, 2, 3]\<close> at address 0, and the data refers
  to it. \<open>set_2dt\<close> succeeds and leaves, at the same address, a grid whose shape is
  \<open>[2, 2, 1]\<close>: the grid object the data was constructed on is modified in place (its affine
  is unchanged, and its voxel count still says 12). Every other data object that refers to
  address 0 sees the new shape.
\<close>

theorem set_2dt_mutates_shared_grid:
  "\<exists>g store' d'.
     DataGrid [2, 2, 3] (identity 4) = Inr g
   \<and> set_2dt (\<lambda>a. if a = 0 then Some g else None)
        \<lparr> name = ''a'', grid = 0, nvols = 1, ndim = 3, raw_2dt = False,
          regions_cache = None, roi = False,
          rawdata = \<lparr> arr_shape = [2, 2, 3], arr_data = replicate 12 0 \<rparr> \<rparr> = Inr (store', d')
   \<and> shape g = [2, 2, 3]
   \<and> map_option shape (store' 0) = Some [2, 2, 1]
   \<and> map_option affine (store' 0) = Some (affine g)
   \<and> map_option nvoxels (store' 0) = Some 12
   \<and> grid d' = 0 \<and> nvols d' = 3"
  by (simp add: DataGrid_identity set_2dt_def)


section \<open>value at a position outside the data\<close>

lemma grid_to_grid_own:
  assumes g: "DataGrid shp aff = Inr g" and c: "length c = 3"
  shows "grid_to_grid g c (Some g) None False = Inr c"
proof -
  from g obtain a0 a1 a2 a3 b0 b1 b2 b3 c0 c1 c2 c3 where
    tr: "transform g = [[a0, a1, a2], [b0, b1, b2], [c0, c1, c2]]"
    and org: "origin g = [a3, b3, c3]"
    and inv: "linalg_inv (transform g) = Inr (inv_transform g)"
    by (auto elim!: DataGrid_explicit)
  from c obtain x y z where cc: "c = [x, y, z]" by (auto elim: list3_explicit)
  show ?thesis
    using inv_dot_3x3[OF inv[unfolded tr], of x y z]
    by (simp add: cc grid_to_grid_def grid_to_world_def world_to_grid_def tr org
          np_dot_def[of "[_, _, _]"])
qed

lemma grid_to_grid_from_total:
  assumes self: "DataGrid s0 a0 = Inr self" and g: "DataGrid s1 a1 = Inr g"
    and pos: "3 \<le> length pos"
  shows "\<exists>x y z. grid_to_grid self (take 3 pos) (Some g) None False = Inr [x, y, z]"
proof -
  from pos have l: "3 \<le> length (take 3 pos)" "length (take 3 pos) \<noteq> 4" by simp_all
  from grid_to_world_total[OF g l(1), of False] l(2) obtain w where
    w: "grid_to_world g (take 3 pos) False = Inr w" "length w = 3" by auto
  from world_to_grid_total[OF self, of w False] w(2) obtain p where
    p: "world_to_grid self w False = Inr p" "length p = 3" by auto
  from p(2) obtain x y z where "p = [x, y, z]" by (auto elim: list3_explicit)
  with w(1) p(1) show ?thesis by (simp add: grid_to_grid_def)
qed

lemma getitem_out_of_bounds:
  assumes "0 \<le> i" "0 \<le> j" "0 \<le> k"
    and "int n0 \<le> i \<or> int n1 \<le> j \<or> int n2 \<le> k"
  shows "np_getitem \<lparr> arr_shape = [n0, n1, n2], arr_data = dat \<rparr> [i, j, k] = Inl IndexError"
  using assms by (auto simp: np_getitem_def norm_index_def split: sum.splits)

text \<open>
  Claim C5, as amended. The data grid and the probing grid are built by \<open>DataGrid\<close>, the
  position has its three coordinates and an integer volume index for which \<open>volume\<close> returns
  a 3D array. Then the position has a transformed grid coordinate \<open>p\<close>, and when some entry
  of \<open>p\<close>, rounded half up, is negative or not below the length of its array axis,
  \<open>value\<close> returns 0. In particular the value at the position \<open>(-1, -1, -1, 0)\<close> of the data's
  own grid is 0.
\<close>

theorem value_at_out_of_range_is_zero:
  assumes self: "DataGrid s0 a0 = Inr (grid d)" and g: "DataGrid s1 a1 = Inr g"
    and pos: "3 \<le> length pos"
    and vol: "volume d vol = Inr arr" "length (arr_shape arr) = 3"
  shows "(\<exists>p. grid_to_grid (grid d) (take 3 pos) (Some g) None False = Inr p \<and> length p = 3
            \<and> ((\<exists>i<3. round_half_up (p ! i) < 0 \<or> int (arr_shape arr ! i) \<le> round_half_up (p ! i))
                 \<longrightarrow> value_at d pos (Some vol) (Some g) = Inr (Scalar 0)))
       \<and> value_at d [- 1, - 1, - 1] (Some 0) (Some (grid d)) = Inr (Scalar 0)"
proof -
  from grid_to_grid_from_total[OF self g pos] obtain x y z where
    p: "grid_to_grid (grid d) (take 3 pos) (Some g) None False = Inr [x, y, z]" by blast
  from vol(2) obtain n0 n1 n2 where sh: "arr_shape arr = [n0, n1, n2]"
    by (auto elim: list3_explicit)
  have arr: "arr = \<lparr> arr_shape = [n0, n1, n2], arr_data = arr_data arr \<rparr>"
    using sh by (cases arr) simp
  have main: "value_at d pos (Some vol) (Some g) = Inr (Scalar 0)"
    if out: "\<exists>i<3. round_half_up ([x, y, z] ! i) < 0
                \<or> int (arr_shape arr ! i) \<le> round_half_up ([x, y, z] ! i)"
  proof (cases "Min (set (map round_half_up [x, y, z])) < 0")
    case True
    then show ?thesis by (simp add: value_at_def p)
  next
    case False
    then have nn: "0 \<le> round_half_up x" "0 \<le> round_half_up y" "0 \<le> round_half_up z"
      by simp_all
    from out nn have "int n0 \<le> round_half_up x \<or> int n1 \<le> round_half_up y
                       \<or> int n2 \<le> round_half_up z"
      by (auto simp: sh less_Suc_eq numeral_3_eq_3)
    from getitem_out_of_bounds[OF nn this, of "arr_data arr"] arr
    have "np_getitem arr [round_half_up x, round_half_up y, round_half_up z] = Inl IndexError"
      by simp
    with False show ?thesis by (simp add: value_at_def p vol(1))
  qed
  have "value_at d [- 1, - 1, - 1] (Some 0) (Some (grid d)) = Inr (Scalar 0)"
    using grid_to_grid_own[OF self, of "[- 1, - 1, - 1]"]
    by (simp add: value_at_def round_half_up_def)
  with p main show ?thesis by simp
qed


theorem value_at_out_of_range_is_zero_witness:
  "\<exists>g. DataGrid [1, 1, 1] (identity 4) = Inr g
     \<and> value_at \<lparr> name = ''a'', grid = g, nvols = 1, ndim = 3, raw_2dt = False,
                   regions_cache = None, roi = False,
                   rawdata = \<lparr> arr_shape = [1, 1, 1], arr_data = [7] \<rparr> \<rparr>
           [5, 0, 0] (Some 0) (Some g) = Inr (Scalar 0)
     \<and> value_at \<lparr> name = ''a'', grid = g, nvols = 1, ndim = 3, raw_2dt = False,
                   regions_cache = None, roi = False,
                   rawdata = \<lparr> arr_shape = [1, 1, 1], arr_data = [7] \<rparr> \<rparr>
           [- 1, - 1, - 1] (Some 0) (Some g) = Inr (Scalar 0)"
proof -
  obtain g where g: "DataGrid [1, 1, 1] (identity 4) = Inr g"
    using DataGrid_unit by blast
  let ?d = "\<lparr> name = ''a'', grid = g, nvols = 1, ndim = 3, raw_2dt = False,
                   regions_cache = None, roi = False,
                   rawdata = \<lparr> arr_shape = [1, 1, 1], arr_data = [7] \<rparr> \<rparr>"
  have 1: "DataGrid [1, 1, 1] (identity 4) = Inr (grid ?d)" using g by simp
  have 2: "volume ?d 0 = Inr \<lparr> arr_shape = [1, 1, 1], arr_data = [7] \<rparr>"
    by (simp add: volume_def)
  have 3: "grid_to_grid g (take 3 [5, 0, 0]) (Some g) None False = Inr [5, 0, 0]"
    using grid_to_grid_own[OF g, of "[5, 0, 0]"] by simp
  have 4: "\<exists>i<3. round_half_up ([5, 0, 0] ! i) < 0
              \<or> int ([1, 1, 1] ! i) \<le> round_half_up ([5, 0, 0] ! i)"
    by (rule exI[of _ 0]) (simp add: round_half_up_def)
  from value_at_out_of_range_is_zero[OF 1 g _ 2, of "[5, 0, 0]"] 3 4 g
  show ?thesis by simp
qed

text \<open>
  The claim as stated, on the coordinate before rounding, fails: on the unit grid the
  position \<open>(-1/4, 0, 0, 0)\<close> has the transformed coordinate \<open>(-1/4, 0, 0)\<close>, with a negative
  entry, which rounds to the voxel \<open>(0, 0, 0)\<close>, and \<open>value\<close> returns the 7 stored there.
\<close>

theorem value_at_negative_coordinate_counterexample:
  "DataGrid [1, 1, 1] (identity 4) = Inr \<lparr> shape = [1, 1, 1],
         affine = [[1, 0, 0, 0], [0, 1, 0, 0], [0, 0, 1, 0], [0, 0, 0, 1]],
         origin = [0, 0, 0], transform = [[1, 0, 0], [0, 1, 0], [0, 0, 1]],
         inv_transform = [[1, 0, 0], [0, 1, 0], [0, 0, 1]],
         spacing = [1, 1, 1], nvoxels = 1 \<rparr>
   \<and> grid_to_grid \<lparr> shape = [1, 1, 1],
         affine = [[1, 0, 0, 0], [0, 1, 0, 0], [0, 0, 1, 0], [0, 0, 0, 1]],
         origin = [0, 0, 0], transform = [[1, 0, 0], [0, 1, 0], [0, 0, 1]],
         inv_transform = [[1, 0, 0], [0, 1, 0], [0, 0, 1]],
         spacing = [1, 1, 1], nvoxels = 1 \<rparr> [- 1 / 4, 0, 0] (Some \<lparr> shape = [1, 1, 1],
         affine = [[1, 0, 0, 0], [0, 1, 0, 0], [0, 0, 1, 0], [0, 0, 0, 1]],
         origin = [0, 0, 0], transform = [[1, 0, 0], [0, 1, 0], [0, 0, 1]],
         inv_transform = [[1, 0, 0], [0, 1, 0], [0, 0, 1]],
         spacing = [1, 1, 1], nvoxels = 1 \<rparr>) None False = Inr [- 1 / 4, 0, 0]
   \<and> value_at \<lparr> name = ''a'', grid = \<lparr> shape = [1, 1, 1],
         affine = [[1, 0, 0, 0], [0, 1, 0, 0], [0, 0, 1, 0], [0, 0, 0, 1]],
         origin = [0, 0, 0], transform = [[1, 0, 0], [0, 1, 0], [0, 0, 1]],
         inv_transform = [[1, 0, 0], [0, 1, 0], [0, 0, 1]],
         spacing = [1, 1, 1], nvoxels = 1 \<rparr>, nvols = 1, ndim = 3, raw_2dt = False,
                 regions_cache = None, roi = False,
                 rawdata = \<lparr> arr_shape = [1, 1, 1], arr_data = [7] \<rparr> \<rparr>
         [- 1 / 4, 0, 0] (Some 0) (Some \<lparr> shape = [1, 1, 1],
         affine = [[1, 0, 0, 0], [0, 1, 0, 0], [0, 0, 1, 0], [0, 0, 0, 1]],
         origin = [0, 0, 0], transform = [[1, 0, 0], [0, 1, 0], [0, 0, 1]],
         inv_transform = [[1, 0, 0], [0, 1, 0], [0, 0, 1]],
         spacing = [1, 1, 1], nvoxels = 1 \<rparr>) = Inr (Scalar 7)"
proof -
  have g: "DataGrid [1, 1, 1] (identity 4) = Inr \<lparr> shape = [1, 1, 1],
         affine = [[1, 0, 0, 0], [0, 1, 0, 0], [0, 0, 1, 0], [0, 0, 0, 1]],
         origin = [0, 0, 0], transform = [[1, 0, 0], [0, 1, 0], [0, 0, 1]],
         inv_transform = [[1, 0, 0], [0, 1, 0], [0, 0, 1]],
         spacing = [1, 1, 1], nvoxels = 1 \<rparr>"
    by (rule DataGrid_unit)
  have p: "grid_to_grid \<lparr> shape = [1, 1, 1],
         affine = [[1, 0, 0, 0], [0, 1, 0, 0], [0, 0, 1, 0], [0, 0, 0, 1]],
         origin = [0, 0, 0], transform = [[1, 0, 0], [0, 1, 0], [0, 0, 1]],
         inv_transform = [[1, 0, 0], [0, 1, 0], [0, 0, 1]],
         spacing = [1, 1, 1], nvoxels = 1 \<rparr> [- 1 / 4, 0, 0] (Some \<lparr> shape = [1, 1, 1],
         affine = [[1, 0, 0, 0], [0, 1, 0, 0], [0, 0, 1, 0], [0, 0, 0, 1]],
         origin = [0, 0, 0], transform = [[1, 0, 0], [0, 1, 0], [0, 0, 1]],
         inv_transform = [[1, 0, 0], [0, 1, 0], [0, 0, 1]],
         spacing = [1, 1, 1], nvoxels = 1 \<rparr>) None False = Inr [- 1 / 4, 0, 0]"
    by (rule grid_to_grid_own[OF g]) simp
  have "value_at \<lparr> name = ''a'', grid = \<lparr> shape = [1, 1, 1],
         affine = [[1, 0, 0, 0], [0, 1, 0, 0], [0, 0, 1, 0], [0, 0, 0, 1]],
         origin = [0, 0, 0], transform = [[1, 0, 0], [0, 1, 0], [0, 0, 1]],
         inv_transform = [[1, 0, 0], [0, 1, 0], [0, 0, 1]],
         spacing = [1, 1, 1], nvoxels = 1 \<rparr>, nvols = 1, ndim = 3, raw_2dt = False,
                 regions_cache = None, roi = False,
                 rawdata = \<lparr> arr_shape = [1, 1, 1], arr_data = [7] \<rparr> \<rparr>
         [- 1 / 4, 0, 0] (Some 0) (Some \<lparr> shape = [1, 1, 1],
         affine = [[1, 0, 0, 0], [0, 1, 0, 0], [0, 0, 1, 0], [0, 0, 0, 1]],
         origin = [0, 0, 0], transform = [[1, 0, 0], [0, 1, 0], [0, 0, 1]],
         inv_transform = [[1, 0, 0], [0, 1, 0], [0, 0, 1]],
         spacing = [1, 1, 1], nvoxels = 1 \<rparr>) = Inr (Scalar 7)"
    using p
    by (simp add: value_at_def round_half_up_def volume_def np_getitem_def norm_index_def)
  with g p show ?thesis by simp
qed

section \<open>The axis-aligned branch of slice_data\<close>

lemma and_then_Inr [simp]: "and_then (Inr x) f = f x"
  by (simp add: and_then_def)

lemma and_then_eq_Inr:
  "and_then m f = Inr y \<longleftrightarrow> (\<exists>x. m = Inr x \<and> f x = Inr y)"
  by (cases m) (simp_all add: and_then_def)

lemma map_err_total:
  "(\<And>x. x \<in> set xs \<Longrightarrow> \<exists>y. f x = Inr y) \<Longrightarrow> \<exists>ys. map_err f xs = Inr ys"
proof (induction xs)
  case Nil
  then show ?case by simp
next
  case (Cons x xs)
  from Cons.prems[of x] obtain y where y: "f x = Inr y" by auto
  from Cons.IH Cons.prems obtain ys where "map_err f xs = Inr ys" by auto
  with y show ?case by simp
qed

lemma np_index_total:
  assumes "list_all2 (\<lambda>n it. case it of NewAxis \<Rightarrow> False | Slice a b c \<Rightarrow> True
                                | Index i \<Rightarrow> 0 \<le> i \<and> i < int n) shp items"
  shows "\<exists>r. np_index shp dat items = Inr r"
  using assms
proof (induction shp items arbitrary: dat rule: list_all2_induct)
  case Nil
  then show ?case by simp
next
  case (Cons n shp it items)
  show ?case
  proof (cases it)
    case NewAxis
    with Cons.hyps show ?thesis by simp
  next
    case (Slice a b c)
    from Cons.IH obtain s d0 where 1: "np_index shp (take (prod_list shp) dat) items = Inr (s, d0)"
      by (metis surj_pair)
    have "\<exists>rs. map_err (\<lambda>k. np_index shp (take (prod_list shp)
                                               (drop (nat k * prod_list shp) dat)) items)
                        (slice_indices n a b c) = Inr rs"
      by (rule map_err_total) (rule Cons.IH)
    with 1 Slice show ?thesis by auto
  next
    case (Index i)
    with Cons.hyps have "norm_index n i = Inr (nat i)" by (simp add: norm_index_def)
    with Index Cons.IH show ?thesis by simp
  qed
qed

lemma argmax3_cases:
  "(argmax [a, b, c] = 0 \<and> b \<le> a \<and> c \<le> a)
   \<or> (argmax [a, b, c] = 1 \<and> a \<le> b \<and> c \<le> b)
   \<or> (argmax [a, b, c] = 2 \<and> a \<le> c \<and> b \<le> c)"
  by (auto simp: argmax_def)

lemma far_from_one:
  fixes c t :: real
  assumes "\<bar>c\<bar> \<le> 1" "t \<le> 1 / 1000"
  shows "\<not> \<bar>\<bar>c / sqrt (1 + c * c)\<bar> - 1\<bar> < t"
proof -
  have c2: "c * c \<le> 1" using assms(1) by (simp add: abs_le_square_iff[of c 1, simplified] power2_eq_square)
  have "(1000 * \<bar>c\<bar> / 999)\<^sup>2 \<le> 1 + c * c"
    using c2 by (simp add: power2_eq_square field_simps)
  then have "1000 * \<bar>c\<bar> / 999 \<le> sqrt (1 + c * c)" by (rule real_le_rsqrt)
  moreover have "0 < sqrt (1 + c * c)" using c2 by (simp add: add_pos_nonneg)
  ultimately have "\<bar>c\<bar> / sqrt (1 + c * c) \<le> 999 / 1000"
    by (simp add: field_simps)
  then have "\<bar>c / sqrt (1 + c * c)\<bar> \<le> 999 / 1000" by simp
  with assms(2) show ?thesis by linarith
qed


lemma ortho_axis:
  assumes a: "a < 3" and n: "n < 3" and an: "a \<noteq> n" and c: "\<bar>c\<bar> \<le> 1"
    and o: "is_ortho_vector (([0, 0, 0][a := 1])[n := c]) shp = Inr (Some (ax, sg))"
  shows "ax = a"
proof -
  from o have shp: "shp \<noteq> 0" by (auto simp: is_ortho_vector_def split: if_splits)
  then have "1 \<le> real shp" by simp
  then have t: "EQ_TOL / real shp \<le> 1 / 1000"
    by (simp add: EQ_TOL_def field_simps)
  note f1 = far_from_one[OF c t]
  have f2: "\<not> \<bar>\<bar>c / sqrt (c * c + 1)\<bar> - 1\<bar> < EQ_TOL / real shp"
    using f1 by (simp add: add.commute)
  have f3: "\<not> 1 < EQ_TOL / real shp" using t by linarith
  from a n an consider "a = 0" "n = 1" | "a = 0" "n = 2" | "a = 1" "n = 0"
    | "a = 1" "n = 2" | "a = 2" "n = 0" | "a = 2" "n = 1"
    by (auto dest!: less3_cases)
  then show ?thesis
  proof cases
    case 1
    with o shp f1 f2 f3 show ?thesis
      by (simp add: is_ortho_vector_def linalg_norm_def upt_rec Let_def split: if_splits)
  next
    case 2
    with o shp f1 f2 f3 show ?thesis
      by (simp add: is_ortho_vector_def linalg_norm_def upt_rec Let_def split: if_splits)
  next
    case 3
    with o shp f1 f2 f3 show ?thesis
      by (simp add: is_ortho_vector_def linalg_norm_def upt_rec Let_def split: if_splits)
  next
    case 4
    with o shp f1 f2 f3 show ?thesis
      by (simp add: is_ortho_vector_def linalg_norm_def upt_rec Let_def split: if_splits)
  next
    case 5
    with o shp f1 f2 f3 show ?thesis
      by (simp add: is_ortho_vector_def linalg_norm_def upt_rec Let_def split: if_splits)
  next
    case 6
    with o shp f1 f2 f3 show ?thesis
      by (simp add: is_ortho_vector_def linalg_norm_def upt_rec Let_def split: if_splits)
  qed
qed



lemma slice_geometry_parts:
  assumes "slice_geometry d plane rawd = Inr geo"
  shows "\<exists>dsn. length dsn = 3
           \<and> slice_frame dsn rawd = Inr (data_naxis geo, slice_basis geo, slice_shape geo)"
proof -
  from assms obtain d_origin d_normal dsn fr where
    sn: "scaled_normal d d_normal = Inr dsn" and fr: "slice_frame dsn rawd = Inr fr"
    and rest: "(case fr of (naxis, s_basis, s_shape) \<Rightarrow>
     and_then (grid_to_grid (grid d) (s_basis ! 0) None (Some plane) True) (\<lambda>t0.
     and_then (grid_to_grid (grid d) (s_basis ! 1) None (Some plane) True) (\<lambda>t1.
       if length t0 < 3 \<or> length t1 < 3 then Inl IndexError
       else if length d_origin \<noteq> 3 then Inl ValueError
       else
         (let s_origin = [0, 0, 0][naxis := sum_list (map2 (*) d_origin dsn) / dsn ! naxis];
              data_offset = map2 (\<lambda>a b. a - b + 1 / 2) d_origin s_origin
          in and_then (grid_to_grid (grid d) data_offset None (Some plane) True)
               (\<lambda>off.
                  Inr \<lparr> data_origin = d_origin, data_naxis = naxis,
                        slice_basis = s_basis, slice_shape = s_shape,
                        trans_v = map (del_at 2) [t0, t1],
                        slice_origin = s_origin,
                        offset = map uminus (take 2 off) \<rparr>))))) = Inr geo"
    unfolding slice_geometry_def and_then_eq_Inr by blast
  from sn have l: "length dsn = 3"
    by (auto simp: scaled_normal_def split: if_splits)
  obtain n b sh where f: "fr = (n, b, sh)" by (cases fr)
  from rest have "data_naxis geo = n \<and> slice_basis geo = b \<and> slice_shape geo = sh"
    unfolding f by (auto simp: and_then_eq_Inr Let_def split: if_splits)
  with l fr f show ?thesis by auto
qed

lemma slice_frame_expand:
  assumes "slice_frame dsn rawd = Inr (n, basis, shp)" and "argmax (map abs dsn) = k"
  shows "n = k" "dsn ! k \<noteq> 0" "basis = map (basis_vector dsn k) (del_at k [0..<3])"
    "map_err (shape_at rawd) (del_at k [0..<3]) = Inr shp"
  using assms
  by (auto simp: slice_frame_def Let_def and_then_eq_Inr split: if_splits)

lemma shape_pair:
  assumes "map_err (shape_at rawd) [x0, x1] = Inr shp"
  shows "x0 < length (arr_shape rawd) \<and> x1 < length (arr_shape rawd)
         \<and> shp = [arr_shape rawd ! x0, arr_shape rawd ! x1]"
  using assms by (auto simp: shape_at_def split: if_splits sum.splits)

lemma slice_frame_facts:
  assumes f: "slice_frame dsn rawd = Inr (n, basis, shp)" and l: "length dsn = 3"
  shows "\<exists>x0 x1 c0 c1. n < 3 \<and> x0 < 3 \<and> x1 < 3 \<and> x0 \<noteq> n \<and> x1 \<noteq> n \<and> x0 \<noteq> x1
           \<and> basis = [([0, 0, 0][x0 := 1])[n := c0], ([0, 0, 0][x1 := 1])[n := c1]]
           \<and> \<bar>c0\<bar> \<le> 1 \<and> \<bar>c1\<bar> \<le> 1
           \<and> x0 < length (arr_shape rawd) \<and> x1 < length (arr_shape rawd)
           \<and> shp = [arr_shape rawd ! x0, arr_shape rawd ! x1]"
proof -
  from l obtain e0 e1 e2 where dsn: "dsn = [e0, e1, e2]" by (auto elim: list3_explicit)
  have q: "\<bar>a\<bar> \<le> \<bar>b\<bar> \<Longrightarrow> b \<noteq> 0 \<Longrightarrow> \<bar>a / b\<bar> \<le> 1" for a b :: real
    by (simp add: field_simps)
  have d: "del_at 0 [0..<3] = [1, 2]" "del_at 1 [0..<3] = [0, 2]" "del_at 2 [0..<3] = [0, 1]"
    "del_at (Suc 0) [0..<3] = [0, 2]"
    by (simp_all add: del_at_def upt_rec)
  from argmax3_cases[of "\<bar>e0\<bar>" "\<bar>e1\<bar>" "\<bar>e2\<bar>"] show ?thesis
  proof (elim disjE conjE)
    assume a: "argmax [\<bar>e0\<bar>, \<bar>e1\<bar>, \<bar>e2\<bar>] = 0" and le: "\<bar>e1\<bar> \<le> \<bar>e0\<bar>" "\<bar>e2\<bar> \<le> \<bar>e0\<bar>"
    then have a': "argmax (map abs dsn) = 0" by (simp add: dsn)
    note e = slice_frame_expand[OF f a']
    from e(2) have nz: "e0 \<noteq> 0" by (simp add: dsn)
    from e(3) have b: "basis = [([0, 0, 0][1 := 1])[0 := - (e1 / e0)],
                                ([0, 0, 0][2 := 1])[0 := - (e2 / e0)]]"
      by (simp add: d basis_vector_def dsn)
    from e(1) b q[OF le(1) nz] q[OF le(2) nz] shape_pair[OF e(4)[unfolded d]]
    show ?thesis by (intro exI[of _ 1] exI[of _ 2] exI[of _ "- (e1 / e0)"] exI[of _ "- (e2 / e0)"]) simp
  next
    assume a: "argmax [\<bar>e0\<bar>, \<bar>e1\<bar>, \<bar>e2\<bar>] = 1" and le: "\<bar>e0\<bar> \<le> \<bar>e1\<bar>" "\<bar>e2\<bar> \<le> \<bar>e1\<bar>"
    then have a': "argmax (map abs dsn) = 1" by (simp add: dsn)
    note e = slice_frame_expand[OF f a']
    from e(2) have nz: "e1 \<noteq> 0" by (simp add: dsn)
    from e(3) have b: "basis = [([0, 0, 0][0 := 1])[1 := - (e0 / e1)],
                                ([0, 0, 0][2 := 1])[1 := - (e2 / e1)]]"
      by (simp add: d basis_vector_def dsn)
    from e(1) b q[OF le(1) nz] q[OF le(2) nz] shape_pair[OF e(4)[unfolded d]]
    show ?thesis by (intro exI[of _ 0] exI[of _ 2] exI[of _ "- (e0 / e1)"] exI[of _ "- (e2 / e1)"]) simp
  next
    assume a: "argmax [\<bar>e0\<bar>, \<bar>e1\<bar>, \<bar>e2\<bar>] = 2" and le: "\<bar>e0\<bar> \<le> \<bar>e2\<bar>" "\<bar>e1\<bar> \<le> \<bar>e2\<bar>"
    then have a': "argmax (map abs dsn) = 2" by (simp add: dsn)
    note e = slice_frame_expand[OF f a']
    from e(2) have nz: "e2 \<noteq> 0" by (simp add: dsn)
    from e(3) have b: "basis = [([0, 0, 0][0 := 1])[2 := - (e0 / e2)],
                                ([0, 0, 0][1 := 1])[2 := - (e1 / e2)]]"
      by (simp add: d basis_vector_def dsn)
    from e(1) b q[OF le(1) nz] q[OF le(2) nz] shape_pair[OF e(4)[unfolded d]]
    show ?thesis by (intro exI[of _ 0] exI[of _ 1] exI[of _ "- (e0 / e2)"] exI[of _ "- (e1 / e2)"]) simp
  qed
qed


lemma perm3_cases:
  assumes "x0 < 3" "x1 < 3" "n < 3" "x0 \<noteq> n" "x1 \<noteq> n" "x0 \<noteq> (x1::nat)"
  shows "(x0 = 0 \<and> x1 = 1 \<and> n = 2) \<or> (x0 = 0 \<and> x1 = 2 \<and> n = 1) \<or> (x0 = 1 \<and> x1 = 0 \<and> n = 2)
       \<or> (x0 = 1 \<and> x1 = 2 \<and> n = 0) \<or> (x0 = 2 \<and> x1 = 0 \<and> n = 1) \<or> (x0 = 2 \<and> x1 = 1 \<and> n = 0)"
proof -
  from assms(1-3) have "x0 = 0 \<or> x0 = 1 \<or> x0 = 2" "x1 = 0 \<or> x1 = 1 \<or> x1 = 2"
    "n = 0 \<or> n = 1 \<or> n = 2"
    by (auto dest: less3_cases)
  with assms(4-6) show ?thesis by blast
qed

lemma ortho_getitems_total:
  assumes xs: "x0 < 3" "x1 < 3" "n < 3" "x0 \<noteq> n" "x1 \<noteq> n" "x0 \<noteq> x1"
    and three: "length (arr_shape rawd) = 3"
    and pos: "0 \<le> pos" "pos < int (arr_shape rawd ! n)"
  shows "\<exists>sdata. np_getitems rawd
           ((([NewAxis, NewAxis, NewAxis][x0 := get_slice l0 s0])[x1 := get_slice l1 s1])
              [n := Index pos]) = Inr sdata"
proof -
  from three obtain n0 n1 n2 where sh: "arr_shape rawd = [n0, n1, n2]"
    by (auto elim: list3_explicit)
  have "list_all2 (\<lambda>n it. case it of NewAxis \<Rightarrow> False | Slice a b c \<Rightarrow> True
                                | Index i \<Rightarrow> 0 \<le> i \<and> i < int n) (arr_shape rawd)
          ((([NewAxis, NewAxis, NewAxis][x0 := get_slice l0 s0])[x1 := get_slice l1 s1])
              [n := Index pos])"
    using perm3_cases[OF xs] pos
    by (elim disjE conjE) (simp_all add: sh get_slice_def)
  from np_index_total[OF this, of "arr_data rawd"] show ?thesis
    by (auto simp: np_getitems_def)
qed

text \<open>
  Claim C6. Let \<open>volume\<close> return a 3D array and \<open>slice_geometry\<close> the geometry of the slice,
  and let \<open>is_ortho_vector\<close> find both basis vectors to be ortho vectors, so that
  \<open>slice_data\<close> takes its axis-aligned branch. With \<open>pos\<close> the slice position along the
  normal axis rounded half up: when \<open>pos\<close> lies in the array along that axis, \<open>slice_data\<close>
  returns, and its mask is \<open>np.ones(slice_shape)\<close>; otherwise it returns zeros of the slice
  shape as data and as mask. It raises in neither case, and the interpolating function is
  not called.
\<close>

theorem slice_data_ortho_mask:
  assumes vol: "volume d vol = Inr rawd" and three: "length (arr_shape rawd) = 3"
    and geo: "slice_geometry d plane rawd = Inr geo"
    and o1: "is_ortho_vector (slice_basis geo ! 0) (slice_shape geo ! 0) = Inr (Some a1)"
    and o2: "is_ortho_vector (slice_basis geo ! 1) (slice_shape geo ! 0) = Inr (Some a2)"
  shows "(let pos = round_half_up (data_origin geo ! data_naxis geo);
              len = arr_shape rawd ! data_naxis geo
          in (0 \<le> pos \<and> pos < int len \<longrightarrow>
                (\<exists>sdata. slice_data affineSlice d plane vol interp_order
                            = Inr (sdata, np_ones (slice_shape geo), trans_v geo, offset geo)))
           \<and> (\<not> (0 \<le> pos \<and> pos < int len) \<longrightarrow>
                slice_data affineSlice d plane vol interp_order
                  = Inr (np_zeros (slice_shape geo), np_zeros (slice_shape geo),
                         trans_v geo, offset geo)))"
proof -
  from slice_geometry_parts[OF geo] obtain dsn where
    l: "length dsn = 3"
    and fr: "slice_frame dsn rawd = Inr (data_naxis geo, slice_basis geo, slice_shape geo)"
    by blast
  from slice_frame_facts[OF fr l] obtain x0 x1 c0 c1 where
    xs: "x0 < 3" "x1 < 3" "data_naxis geo < 3" "x0 \<noteq> data_naxis geo" "x1 \<noteq> data_naxis geo"
      "x0 \<noteq> x1"
    and b: "slice_basis geo = [([0, 0, 0][x0 := 1])[data_naxis geo := c0],
                               ([0, 0, 0][x1 := 1])[data_naxis geo := c1]]"
    and c: "\<bar>c0\<bar> \<le> 1" "\<bar>c1\<bar> \<le> 1"
    by blast
  obtain ax1 s1 where a1: "a1 = (ax1, s1)" by (cases a1)
  obtain ax2 s2 where a2: "a2 = (ax2, s2)" by (cases a2)
  have e1: "ax1 = x0"
    using o1 unfolding b a1 by (intro ortho_axis[OF xs(1,3,4) c(1)]) simp
  have e2: "ax2 = x1"
    using o2 unfolding b a2 by (intro ortho_axis[OF xs(2,3,5) c(2)]) simp
  have sa: "shape_at rawd i = Inr (arr_shape rawd ! i)" if "i < 3" for i
    using that three by (simp add: shape_at_def)
  have sd: "slice_data affineSlice d plane vol interp_order
              = and_then (slice_ortho rawd geo a1 a2)
                  (\<lambda>(sdata, smask). Inr (sdata, smask, trans_v geo, offset geo))"
    using o2 by (simp add: slice_data_def vol geo o1)
  define pos where "pos = round_half_up (data_origin geo ! data_naxis geo)"
  show ?thesis
  proof (cases "0 \<le> pos \<and> pos < int (arr_shape rawd ! data_naxis geo)")
    case True
    with ortho_getitems_total[OF xs three, of pos] obtain sdata where
      "np_getitems rawd
           ((([NewAxis, NewAxis, NewAxis][x0 := get_slice (arr_shape rawd ! x0) s1])
               [x1 := get_slice (arr_shape rawd ! x1) s2])
              [data_naxis geo := Index pos]) = Inr sdata"
      by blast
    with True xs have "slice_ortho rawd geo a1 a2 = Inr (sdata, np_ones (slice_shape geo))"
      by (simp add: slice_ortho_def a1 a2 e1 e2 sa Let_def pos_def[symmetric])
    with True show ?thesis
      by (simp add: sd Let_def pos_def[symmetric])
  next
    case False
    with xs have "slice_ortho rawd geo a1 a2
                    = Inr (np_zeros (slice_shape geo), np_zeros (slice_shape geo))"
      by (auto simp: slice_ortho_def a1 a2 e1 e2 sa Let_def pos_def[symmetric])
    with False show ?thesis
      by (auto simp: sd Let_def pos_def[symmetric])
  qed
qed


lemma DataGrid_plane:
  "DataGrid [2, 2, 1] [[1, 0, 0, 0], [0, 1, 0, 0], [0, 0, 1, z], [0, 0, 0, 1]] =
     Inr \<lparr> shape = [2, 2, 1], affine = [[1, 0, 0, 0], [0, 1, 0, 0], [0, 0, 1, z], [0, 0, 0, 1]],
           origin = [0, 0, z], transform = [[1, 0, 0], [0, 1, 0], [0, 0, 1]],
           inv_transform = [[1, 0, 0], [0, 1, 0], [0, 0, 1]],
           spacing = [1, 1, 1], nvoxels = 4 \<rparr>"
  by (simp add: DataGrid_def is_4x4_def upt_rec col_def linalg_inv_3x3 det_3x3
        linalg_norm_def Let_def)

lemma slice_geometry_example:
  assumes g: "DataGrid [2, 2, 2] (identity 4) = Inr (grid d)"
    and p: "DataGrid [2, 2, 1] [[1, 0, 0, 0], [0, 1, 0, 0], [0, 0, 1, z], [0, 0, 0, 1]] = Inr plane"
    and r: "arr_shape rawd = [2, 2, 2]"
  shows "slice_geometry d plane rawd =
           Inr \<lparr> data_origin = [0, 0, z], data_naxis = 2,
                 slice_basis = [[1, 0, 0], [0, 1, 0]], slice_shape = [2, 2],
                 trans_v = [[1, 0], [0, 1]], slice_origin = [0, 0, z],
                 offset = [- (1 / 2), - (1 / 2)] \<rparr>"
proof -
  from g[unfolded DataGrid_identity] have gd: "grid d = \<lparr> shape = [2, 2, 2],
           affine = [[1, 0, 0, 0], [0, 1, 0, 0], [0, 0, 1, 0], [0, 0, 0, 1]],
           origin = [0, 0, 0], transform = [[1, 0, 0], [0, 1, 0], [0, 0, 1]],
           inv_transform = [[1, 0, 0], [0, 1, 0], [0, 0, 1]],
           spacing = [1, 1, 1], nvoxels = 8 \<rparr>" by simp
  from p[unfolded DataGrid_plane] have pl: "plane = \<lparr> shape = [2, 2, 1],
           affine = [[1, 0, 0, 0], [0, 1, 0, 0], [0, 0, 1, z], [0, 0, 0, 1]],
           origin = [0, 0, z], transform = [[1, 0, 0], [0, 1, 0], [0, 0, 1]],
           inv_transform = [[1, 0, 0], [0, 1, 0], [0, 0, 1]],
           spacing = [1, 1, 1], nvoxels = 4 \<rparr>" by simp
  have 1: "grid_to_grid (grid d) [0, 0, 0] (Some plane) None False = Inr [0, 0, z]"
    by (simp add: gd pl grid_to_grid_def grid_to_world_def world_to_grid_def np_dot_def)
  have 2: "grid_to_grid (grid d) [0, 0, 1] (Some plane) None True = Inr [0, 0, 1]"
    by (simp add: gd pl grid_to_grid_def grid_to_world_def world_to_grid_def np_dot_def)
  have 3: "scaled_normal d [0, 0, 1] = Inr [0, 0, 1]"
    by (simp add: scaled_normal_def gd upt_rec)
  have 4: "slice_frame [0, 0, 1] rawd = Inr (2, [[1, 0, 0], [0, 1, 0]], [2, 2])"
    by (simp add: slice_frame_def argmax_def del_at_def upt_rec shape_at_def r basis_vector_def)
  have 5: "grid_to_grid (grid d) [1, 0, 0] None (Some plane) True = Inr [1, 0, 0]"
    "grid_to_grid (grid d) [0, 1, 0] None (Some plane) True = Inr [0, 1, 0]"
    "grid_to_grid (grid d) [1 / 2, 1 / 2, 1 / 2] None (Some plane) True = Inr [1 / 2, 1 / 2, 1 / 2]"
    by (simp_all add: gd pl grid_to_grid_def grid_to_world_def world_to_grid_def np_dot_def)
  show ?thesis
    by (simp add: slice_geometry_def 1 2 3 4 5 del_at_def Let_def)
qed

lemma is_ortho_example:
  "is_ortho_vector [1, 0, 0] 2 = Inr (Some (0, 1))"
  "is_ortho_vector [0, 1, 0] 2 = Inr (Some (1, 1))"
  by (simp_all add: is_ortho_vector_def linalg_norm_def EQ_TOL_def upt_rec)

theorem slice_data_ortho_mask_witness:
  "\<exists>g p q sdata.
     DataGrid [2, 2, 2] (identity 4) = Inr g
   \<and> DataGrid [2, 2, 1] [[1, 0, 0, 0], [0, 1, 0, 0], [0, 0, 1, 1], [0, 0, 0, 1]] = Inr p
   \<and> DataGrid [2, 2, 1] [[1, 0, 0, 0], [0, 1, 0, 0], [0, 0, 1, 5], [0, 0, 0, 1]] = Inr q
   \<and> slice_data (\<lambda>a shp org vs ord cv. Inl ValueError)
        \<lparr> name = ''a'', grid = g, nvols = 1, ndim = 3, raw_2dt = False,
          regions_cache = None, roi = False,
          rawdata = \<lparr> arr_shape = [2, 2, 2], arr_data = [0, 1, 2, 3, 4, 5, 6, 7] \<rparr> \<rparr> p 0 0
       = Inr (sdata, np_ones [2, 2], [[1, 0], [0, 1]], [- (1 / 2), - (1 / 2)])
   \<and> slice_data (\<lambda>a shp org vs ord cv. Inl ValueError)
        \<lparr> name = ''a'', grid = g, nvols = 1, ndim = 3, raw_2dt = False,
          regions_cache = None, roi = False,
          rawdata = \<lparr> arr_shape = [2, 2, 2], arr_data = [0, 1, 2, 3, 4, 5, 6, 7] \<rparr> \<rparr> q 0 0
       = Inr (np_zeros [2, 2], np_zeros [2, 2], [[1, 0], [0, 1]], [- (1 / 2), - (1 / 2)])"
proof -
  obtain g where g: "DataGrid [2, 2, 2] (identity 4) = Inr g"
    using DataGrid_identity by blast
  obtain p where p: "DataGrid [2, 2, 1] [[1, 0, 0, 0], [0, 1, 0, 0], [0, 0, 1, 1], [0, 0, 0, 1]] = Inr p"
    using DataGrid_plane by blast
  obtain q where q: "DataGrid [2, 2, 1] [[1, 0, 0, 0], [0, 1, 0, 0], [0, 0, 1, 5], [0, 0, 0, 1]] = Inr q"
    using DataGrid_plane by blast
  define raw where "raw = \<lparr> arr_shape = [2, 2, 2], arr_data = [0, 1, 2, 3, 4, 5, 6, 7 :: real] \<rparr>"
  define d where "d = \<lparr> name = ''a'', grid = g, nvols = 1, ndim = 3, raw_2dt = False,
          regions_cache = None, roi = False, rawdata = raw \<rparr>"
  have v: "volume d 0 = Inr raw" by (simp add: volume_def d_def)
  have l: "length (arr_shape raw) = 3" "arr_shape raw = [2, 2, 2]" by (simp_all add: raw_def)
  have gd: "DataGrid [2, 2, 2] (identity 4) = Inr (grid d)" using g by (simp add: d_def)
  note gp = slice_geometry_example[OF gd p l(2)]
  note gq = slice_geometry_example[OF gd q l(2)]
  have "\<exists>sdata. slice_data (\<lambda>a shp org vs ord cv. Inl ValueError) d p 0 0
          = Inr (sdata, np_ones [2, 2], [[1, 0], [0, 1]], [- (1 / 2), - (1 / 2)])"
    using slice_data_ortho_mask[OF v l(1) gp, of "(0, 1)" "(1, 1)"
            "\<lambda>a shp org vs ord cv. Inl ValueError" 0]
    by (simp add: is_ortho_example l(2) round_half_up_def)
  moreover have "slice_data (\<lambda>a shp org vs ord cv. Inl ValueError) d q 0 0
          = Inr (np_zeros [2, 2], np_zeros [2, 2], [[1, 0], [0, 1]], [- (1 / 2), - (1 / 2)])"
    using slice_data_ortho_mask[OF v l(1) gq, of "(0, 1)" "(1, 1)"
            "\<lambda>a shp org vs ord cv. Inl ValueError" 0]
    by (simp add: is_ortho_example l(2) round_half_up_def)
  ultimately show ?thesis
    using g p q unfolding d_def raw_def by blast
qed

end
